theory Spec2Isabelle
  imports Complex_Main
begin

section \<open>Data model (server/models/portfolio.model.js)\<close>

text \<open>
  The two Mongoose schemas, \<open>InvestmentSchema\<close> and \<open>PortfolioSchema\<close>, as records.
  An id is a natural number; \<open>user\<close> is the owner's id.

  JavaScript numbers are embedded as exact reals: the rounding of IEEE doubles is not
  modelled, and Mongoose's Number cast rejects NaN, so a stored number is a real.
  A field that is not set is \<open>undefined\<close>; such a field has an option type and
  \<open>None\<close> is \<open>undefined\<close>. \<open>currentPrice\<close> has the schema default 0: it is
  \<open>undefined\<close> only in a document in memory to which \<open>undefined\<close> was assigned, and
  in the collection once that document is saved; a document read back has the default
  (see \<open>hydrate\<close> below). The value \<open>null\<close> behaves as the
  number 0 in every operator modelled here (\<open>||\<close>, \<open><\<close>, \<open>-\<close>, \<open>*\<close>) and is
  identified with \<open>Some 0\<close>. Where arithmetic is done on such a field, \<open>None\<close> in the
  result is NaN (\<open>undefined - x\<close> is NaN, and NaN absorbs \<open>+\<close> and \<open>*\<close>).
  Dates are milliseconds since the epoch.
\<close>

record investment =
  inv_id :: nat
  symbol :: string
  name :: "string option"
  shares :: real
  purchasePrice :: real
  purchaseDate :: int
  sector :: "string option"
  investment_notes :: "string option"
  currentPrice :: "real option"
  lastUpdated :: int

record portfolio =
  portfolio_id :: nat
  user :: nat
  portfolio_name :: string
  description :: "string option"
  investments :: "investment list"
  totalValue :: real
  totalCost :: real
  createdAt :: int
  updatedAt :: int
  isDefault :: bool

section \<open>Portfolio aggregation: \<open>PortfolioSchema.pre('save')\<close>\<close>

text \<open>
  \<open>investment.currentPrice || investment.purchasePrice\<close>: the left operand when it is
  truthy (a number other than 0), the right operand otherwise.
\<close>

definition effectivePrice :: "investment \<Rightarrow> real" where
  "effectivePrice lot =
     (case currentPrice lot of
        None \<Rightarrow> purchasePrice lot
      | Some c \<Rightarrow> if c = 0 then purchasePrice lot else c)"

text \<open>
  The hook: two \<open>reduce\<close> calls from 0 over the lots, then the timestamp
  (\<open>now\<close> is the reading of \<open>Date.now()\<close>).
\<close>

definition pre_save :: "int \<Rightarrow> portfolio \<Rightarrow> portfolio" where
  "pre_save now p =
     p\<lparr> totalCost :=
          foldl (\<lambda>total lot. total + purchasePrice lot * shares lot) 0 (investments p),
        totalValue :=
          foldl (\<lambda>total lot. total + effectivePrice lot * shares lot) 0 (investments p),
        updatedAt := now \<rparr>"

section \<open>Persistence and errors\<close>

text \<open>
  The collection of portfolio documents is a list in natural order. A document read from
  it is hydrated: Mongoose puts the schema default in place of a missing path, so a lot
  stored without \<open>currentPrice\<close> is read with \<open>currentPrice\<close> 0.
  \<open>Portfolio.findOne({_id, user})\<close> returns the first match, hydrated, or \<open>null\<close>.
  A route answers with an error status or with its data.
\<close>

datatype error = BadRequest | NotFound | ServerError

definition applyDefaults :: "investment \<Rightarrow> investment" where
  "applyDefaults lot =
     (case currentPrice lot of None \<Rightarrow> lot\<lparr>currentPrice := Some 0\<rparr> | Some c \<Rightarrow> lot)"

definition hydrate :: "portfolio \<Rightarrow> portfolio" where
  "hydrate p = p\<lparr>investments := map applyDefaults (investments p)\<rparr>"

definition findOne :: "portfolio list \<Rightarrow> nat \<Rightarrow> nat \<Rightarrow> portfolio option" where
  "findOne db pid uid =
     map_option hydrate (find (\<lambda>p. portfolio_id p = pid \<and> user p = uid) db)"

section \<open>Tax routes (server/routes/tax.routes.js)\<close>

subsection \<open>JavaScript operators on a number that may be \<open>undefined\<close> or NaN\<close>

definition js_add :: "real option \<Rightarrow> real option \<Rightarrow> real option" where
  "js_add a b = (case (a, b) of (Some x, Some y) \<Rightarrow> Some (x + y) | _ \<Rightarrow> None)"

definition js_sub :: "real option \<Rightarrow> real option \<Rightarrow> real option" where
  "js_sub a b = (case (a, b) of (Some x, Some y) \<Rightarrow> Some (x - y) | _ \<Rightarrow> None)"

definition js_mul :: "real option \<Rightarrow> real option \<Rightarrow> real option" where
  "js_mul a b = (case (a, b) of (Some x, Some y) \<Rightarrow> Some (x * y) | _ \<Rightarrow> None)"

definition js_lt :: "real option \<Rightarrow> real option \<Rightarrow> bool" where
  "js_lt a b = (case (a, b) of (Some x, Some y) \<Rightarrow> x < y | _ \<Rightarrow> False)"

text \<open>\<open>lot.name || lot.symbol\<close> and \<open>lot.sector || 'Unknown'\<close>: the empty string is falsy.\<close>

definition or_string :: "string option \<Rightarrow> string \<Rightarrow> string" where
  "or_string a b = (case a of None \<Rightarrow> b | Some s \<Rightarrow> if s = [] then b else s)"

subsection \<open>\<open>POST /calculate-gains\<close>\<close>

record gains_entry =
  ge_symbol :: string
  ge_name :: string
  ge_shares :: real
  ge_purchasePrice :: real
  ge_purchaseDate :: int
  ge_currentPrice :: "real option"
  unrealizedGain :: "real option"
  isLongTerm :: bool

record gains_data =
  gd_year :: int
  shortTermGains :: "real option"
  longTermGains :: "real option"
  totalGains :: "real option"
  gd_investments :: "gains_entry list"

text \<open>
  \<open>(currentDate - purchaseDate) / (1000 * 60 * 60 * 24)\<close>, where \<open>now\<close> is the reading
  of \<open>new Date()\<close>: a quotient of reals, not rounded. A request reads the clock
  several times; the readings are taken to be one instant.
\<close>

definition holdingPeriod :: "int \<Rightarrow> investment \<Rightarrow> real" where
  "holdingPeriod now lot = real_of_int (now - purchaseDate lot) / (1000 * 60 * 60 * 24)"

text \<open>The body of \<open>relevantInvestments.map\<close>.\<close>

definition investmentsData_entry :: "int \<Rightarrow> investment \<Rightarrow> gains_entry" where
  "investmentsData_entry now lot =
     \<lparr> ge_symbol = symbol lot,
       ge_name = or_string (name lot) (symbol lot),
       ge_shares = shares lot,
       ge_purchasePrice = purchasePrice lot,
       ge_purchaseDate = purchaseDate lot,
       ge_currentPrice = currentPrice lot,
       unrealizedGain =
         js_mul (js_sub (currentPrice lot) (Some (purchasePrice lot))) (Some (shares lot)),
       isLongTerm = (holdingPeriod now lot > 365) \<rparr>"

text \<open>
  The filter on the purchase year. \<open>getFullYear\<close> is the built-in that reads the
  calendar year of an instant in the server's time zone; it is a parameter.
\<close>

definition relevantInvestments :: "(int \<Rightarrow> int) \<Rightarrow> int \<Rightarrow> investment list \<Rightarrow> investment list" where
  "relevantInvestments getFullYear year lots =
     filter (\<lambda>lot. getFullYear (purchaseDate lot) \<le> year) lots"

text \<open>
  The route: validation of \<open>year\<close> (an integer from 2000 to 2100), the lookup, the
  filter, the early answer when nothing is left, the transformation and the two sums.
\<close>

definition calculate_gains ::
  "(int \<Rightarrow> int) \<Rightarrow> int \<Rightarrow> portfolio list \<Rightarrow> nat \<Rightarrow> nat \<Rightarrow> int \<Rightarrow> error + gains_data" where
  "calculate_gains getFullYear now db uid portfolioId year =
     (if year < 2000 \<or> 2100 < year then Inl BadRequest
      else case findOne db portfolioId uid of
        None \<Rightarrow> Inl NotFound
      | Some p \<Rightarrow>
          let relevant = relevantInvestments getFullYear year (investments p) in
          if length relevant = 0 then
            Inr \<lparr> gd_year = year, shortTermGains = Some 0, longTermGains = Some 0,
                  totalGains = Some 0, gd_investments = [] \<rparr>
          else
            let investmentsData = map (investmentsData_entry now) relevant;
                short = foldl (\<lambda>total e. js_add total (unrealizedGain e)) (Some 0)
                          (filter (\<lambda>e. \<not> isLongTerm e) investmentsData);
                long = foldl (\<lambda>total e. js_add total (unrealizedGain e)) (Some 0)
                          (filter (\<lambda>e. isLongTerm e) investmentsData)
            in Inr \<lparr> gd_year = year, shortTermGains = short, longTermGains = long,
                     totalGains = js_add short long, gd_investments = investmentsData \<rparr>)"

text \<open>
  The calendar year of an instant in UTC (days since the epoch to the civil year, by
  400-year eras starting on 1 March), used as a concrete \<open>getFullYear\<close>.
\<close>

definition utcFullYear :: "int \<Rightarrow> int" where
  "utcFullYear t =
     (let z = t div 86400000 + 719468;
          era = z div 146097;
          doe = z mod 146097;
          yoe = (doe - doe div 1460 + doe div 36524 - doe div 146096) div 365;
          doy = doe - (365 * yoe + yoe div 4 - yoe div 100);
          mp = (5 * doy + 2) div 153
      in yoe + era * 400 + (if mp < 10 then 0 else 1))"

subsection \<open>\<open>POST /tax-loss-harvesting\<close>\<close>

record loss_entry =
  le_symbol :: string
  le_name :: string
  le_shares :: real
  le_purchasePrice :: real
  le_currentPrice :: "real option"
  totalLoss :: "real option"
  le_purchaseDate :: int
  le_sector :: string

text \<open>
  \<open>Array.prototype.sort\<close> with a comparator: a stable sort; \<open>x\<close> stays before \<open>y\<close>
  unless the comparator is positive, and a NaN comparison counts as 0.
\<close>

fun insert_by :: "('a \<Rightarrow> 'a \<Rightarrow> real option) \<Rightarrow> 'a \<Rightarrow> 'a list \<Rightarrow> 'a list" where
  "insert_by cmp x [] = [x]"
| "insert_by cmp x (y # ys) =
     (if (case cmp x y of None \<Rightarrow> 0 | Some v \<Rightarrow> v) \<le> 0 then x # y # ys
      else y # insert_by cmp x ys)"

definition array_sort :: "('a \<Rightarrow> 'a \<Rightarrow> real option) \<Rightarrow> 'a list \<Rightarrow> 'a list" where
  "array_sort cmp xs = foldr (insert_by cmp) xs []"

definition loss_entry_of :: "investment \<Rightarrow> loss_entry" where
  "loss_entry_of lot =
     \<lparr> le_symbol = symbol lot,
       le_name = or_string (name lot) (symbol lot),
       le_shares = shares lot,
       le_purchasePrice = purchasePrice lot,
       le_currentPrice = currentPrice lot,
       totalLoss =
         js_mul (js_sub (Some (purchasePrice lot)) (currentPrice lot)) (Some (shares lot)),
       le_purchaseDate = purchaseDate lot,
       le_sector = or_string (sector lot) ''Unknown'' \<rparr>"

definition investmentsWithLosses :: "investment list \<Rightarrow> loss_entry list" where
  "investmentsWithLosses lots =
     array_sort (\<lambda>a b. js_sub (totalLoss b) (totalLoss a))
       (map loss_entry_of
         (filter (\<lambda>lot. js_lt (currentPrice lot) (Some (purchasePrice lot))) lots))"

record harvest_data =
  opportunities :: "loss_entry list"
  recommendations :: "string option"

text \<open>
  The route. \<open>advise\<close> is the external completion service: \<open>None\<close> when the call or
  the parsing of its answer throws.
\<close>

definition tax_loss_harvesting ::
  "(loss_entry list \<Rightarrow> string option) \<Rightarrow> portfolio list \<Rightarrow> nat \<Rightarrow> nat \<Rightarrow> error + harvest_data" where
  "tax_loss_harvesting advise db uid portfolioId =
     (case findOne db portfolioId uid of
        None \<Rightarrow> Inl NotFound
      | Some p \<Rightarrow>
          let losses = investmentsWithLosses (investments p) in
          if length losses = 0 then Inr \<lparr> opportunities = [], recommendations = None \<rparr>
          else (case advise losses of
                  None \<Rightarrow> Inl ServerError
                | Some r \<Rightarrow> Inr \<lparr> opportunities = losses, recommendations = Some r \<rparr>))"

section \<open>Portfolio routes (server/routes/portfolio.routes.js)\<close>

subsection \<open>The collection\<close>

text \<open>
  The database itself is taken as reliable: a write that passes the schema's validators
  succeeds. \<open>doc.save()\<close> runs the \<open>pre('save')\<close> hook and then writes the document,
  over the stored document of the same id or as a new one. \<open>updateMany\<close> writes
  without running the hook. A new document gets an id that no stored document has.
\<close>

definition save :: "int \<Rightarrow> portfolio \<Rightarrow> portfolio list \<Rightarrow> portfolio \<times> portfolio list" where
  "save now doc db =
     (let d = pre_save now doc in
      (d, if portfolio_id d \<in> set (map portfolio_id db)
          then map (\<lambda>p. if portfolio_id p = portfolio_id d then d else p) db
          else db @ [d]))"

definition updateMany ::
  "(portfolio \<Rightarrow> bool) \<Rightarrow> (portfolio \<Rightarrow> portfolio) \<Rightarrow> portfolio list \<Rightarrow> portfolio list" where
  "updateMany query upd db = map (\<lambda>p. if query p then upd p else p) db"

definition new_ObjectId :: "portfolio list \<Rightarrow> nat" where
  "new_ObjectId db = Suc (foldr max (map portfolio_id db) 0)"

subsection \<open>Values of the request body\<close>

text \<open>
  A field of the request body is absent, or a JSON boolean, number or string; every field
  of a form-encoded body is a string. The handlers test such a value for truthiness:
  \<open>undefined\<close>, \<open>false\<close>, the number 0 and the empty string are falsy.
\<close>

datatype body_value = Undefined | Boolean bool | Number real | String string

fun truthy_value :: "body_value \<Rightarrow> bool" where
  "truthy_value Undefined = False"
| "truthy_value (Boolean b) = b"
| "truthy_value (Number r) = (r \<noteq> 0)"
| "truthy_value (String s) = (s \<noteq> [])"

text \<open>
  The cast of the Boolean schema path, on the values the handlers assign to it:
  \<open>true\<close>, \<open>'true'\<close>, 1, \<open>'1'\<close> and \<open>'yes'\<close> are true; \<open>false\<close>, \<open>'false'\<close>, 0,
  \<open>'0'\<close> and \<open>'no'\<close> are false; any other value is a cast error (\<open>None\<close>), found
  when the document is saved. \<open>undefined\<close> is falsy and is never assigned.
\<close>

fun castBoolean :: "body_value \<Rightarrow> bool option" where
  "castBoolean Undefined = None"
| "castBoolean (Boolean b) = Some b"
| "castBoolean (Number r) = (if r = 1 then Some True else if r = 0 then Some False else None)"
| "castBoolean (String s) =
     (if s = ''true'' \<or> s = ''1'' \<or> s = ''yes'' then Some True
      else if s = ''false'' \<or> s = ''0'' \<or> s = ''no'' then Some False
      else None)"

subsection \<open>\<open>POST /\<close> and \<open>PUT /:id\<close>\<close>

text \<open>
  The request body: \<open>name\<close> (the empty string when missing), \<open>description\<close> and
  \<open>isDefault\<close>, which no validator checks.
\<close>

record portfolio_body =
  body_name :: string
  body_description :: "string option"
  body_isDefault :: body_value

text \<open>
  The schema's setter and validators on the name: \<open>trim\<close>, then required and at most
  50 characters. \<open>trim\<close> is the built-in \<open>String.prototype.trim\<close>; it is a parameter
  of the routes.
\<close>

definition name_valid :: "(string \<Rightarrow> string) \<Rightarrow> string \<Rightarrow> bool" where
  "name_valid trim n = (trim n \<noteq> [] \<and> length (trim n) \<le> 50)"

text \<open>
  \<open>POST /\<close> awaits three times: the search for the current default, the save that
  clears it, and the save of the new portfolio. Each is a step on the collection as it is
  at that moment; the route, run alone, is the three steps in a row.
\<close>

definition create_find :: "nat \<Rightarrow> portfolio_body \<Rightarrow> portfolio list \<Rightarrow> portfolio option" where
  "create_find uid body db =
     (if truthy_value (body_isDefault body)
      then map_option hydrate (find (\<lambda>p. user p = uid \<and> isDefault p) db)
      else None)"

definition create_clear :: "int \<Rightarrow> portfolio option \<Rightarrow> portfolio list \<Rightarrow> portfolio list" where
  "create_clear now existingDefault db =
     (case existingDefault of
        None \<Rightarrow> db
      | Some e \<Rightarrow> snd (save now (e\<lparr>isDefault := False\<rparr>) db))"

definition create_insert ::
  "(string \<Rightarrow> string) \<Rightarrow> int \<Rightarrow> nat \<Rightarrow> portfolio_body \<Rightarrow> portfolio list
     \<Rightarrow> (error + portfolio) \<times> portfolio list" where
  "create_insert trim now uid body db =
     (case (if truthy_value (body_isDefault body) then castBoolean (body_isDefault body)
            else Some False) of
        None \<Rightarrow> (Inl ServerError, db)
      | Some flag \<Rightarrow>
          if \<not> name_valid trim (body_name body) then (Inl ServerError, db)
          else
            let portfolio =
                  \<lparr> portfolio_id = new_ObjectId db, user = uid,
                    portfolio_name = trim (body_name body),
                    description = map_option trim (body_description body),
                    investments = [], totalValue = 0, totalCost = 0,
                    createdAt = now, updatedAt = now, isDefault = flag \<rparr>
            in (Inr (fst (save now portfolio db)), snd (save now portfolio db)))"

definition create_portfolio ::
  "(string \<Rightarrow> string) \<Rightarrow> int \<Rightarrow> nat \<Rightarrow> portfolio_body \<Rightarrow> portfolio list
     \<Rightarrow> (error + portfolio) \<times> portfolio list" where
  "create_portfolio trim now uid body db =
     (if body_name body = [] then (Inl BadRequest, db)
      else create_insert trim now uid body
             (create_clear now (create_find uid body db) db))"

text \<open>
  \<open>PUT /:id\<close>: the value assigned to \<open>isDefault\<close> is
  \<open>isDefault || portfolio.isDefault\<close>, the raw request value when it is truthy.
\<close>

definition update_portfolio ::
  "(string \<Rightarrow> string) \<Rightarrow> int \<Rightarrow> nat \<Rightarrow> nat \<Rightarrow> portfolio_body \<Rightarrow> portfolio list
     \<Rightarrow> (error + portfolio) \<times> portfolio list" where
  "update_portfolio trim now uid pid body db =
     (if body_name body = [] then (Inl BadRequest, db)
      else case findOne db pid uid of
        None \<Rightarrow> (Inl NotFound, db)
      | Some portfolio \<Rightarrow>
          let db1 =
                (if truthy_value (body_isDefault body) \<and> \<not> isDefault portfolio then
                   updateMany
                     (\<lambda>p. user p = uid \<and> isDefault p \<and> portfolio_id p \<noteq> portfolio_id portfolio)
                     (\<lambda>p. p\<lparr>isDefault := False\<rparr>) db
                 else db)
          in (case (if truthy_value (body_isDefault body)
                    then castBoolean (body_isDefault body)
                    else Some (isDefault portfolio)) of
                None \<Rightarrow> (Inl ServerError, db1)
              | Some flag \<Rightarrow>
                  if \<not> name_valid trim (body_name body) then (Inl ServerError, db1)
                  else
                    let changed =
                          portfolio\<lparr> portfolio_name := trim (body_name body),
                                     description := map_option trim (body_description body),
                                     isDefault := flag \<rparr>
                    in (Inr (fst (save now changed db1)), snd (save now changed db1))))"

subsection \<open>\<open>DELETE /:id\<close>\<close>

definition delete_portfolio ::
  "nat \<Rightarrow> nat \<Rightarrow> portfolio list \<Rightarrow> (error + unit) \<times> portfolio list" where
  "delete_portfolio uid pid db =
     (case findOne db pid uid of
        None \<Rightarrow> (Inl NotFound, db)
      | Some portfolio \<Rightarrow>
          (Inr (), filter (\<lambda>p. portfolio_id p \<noteq> portfolio_id portfolio) db))"

subsection \<open>The quote source\<close>

text \<open>
  \<open>yahoo.quote(symbol)\<close> throws (\<open>QuoteError\<close>) or returns a quote whose
  \<open>regularMarketPrice\<close> is a number or \<open>undefined\<close>.
\<close>

datatype quote_outcome = QuoteError | Quote "real option"

subsection \<open>\<open>POST /:id/refresh\<close>\<close>

text \<open>\<open>[...new Set(xs)]\<close>: the first occurrence of each element, in order.\<close>

definition set_spread :: "'a list \<Rightarrow> 'a list" where
  "set_spread xs = rev (remdups (rev xs))"

text \<open>
  The loop that fills the \<open>quotes\<close> object, one request to the quote source per element
  of \<open>symbols\<close>: a key is written only when the quote did not throw, and the value
  written may be \<open>undefined\<close>. The second component lists the symbols requested, in
  order.
\<close>

definition fetch_quotes ::
  "(string \<Rightarrow> quote_outcome) \<Rightarrow> string list \<Rightarrow> (string \<rightharpoonup> real option) \<times> string list" where
  "fetch_quotes yahoo_quote symbols =
     foldl (\<lambda>(quotes, requested) symbol.
              case yahoo_quote symbol of
                QuoteError \<Rightarrow> (quotes, requested @ [symbol])
              | Quote price \<Rightarrow> (quotes(symbol \<mapsto> price), requested @ [symbol]))
       (Map.empty, []) symbols"

text \<open>The body of the second loop: \<open>if (quotes[investment.symbol])\<close> tests truthiness.\<close>

definition apply_quote :: "(string \<rightharpoonup> real option) \<Rightarrow> int \<Rightarrow> investment \<Rightarrow> investment" where
  "apply_quote quotes now investment =
     (case quotes (symbol investment) of
        Some (Some price) \<Rightarrow>
          if price \<noteq> 0 then investment\<lparr>currentPrice := Some price, lastUpdated := now\<rparr>
          else investment
      | _ \<Rightarrow> investment)"

text \<open>
  The route answers with its response, the collection, and the symbols it requested from
  the quote source.
\<close>

definition refresh ::
  "(string \<Rightarrow> quote_outcome) \<Rightarrow> int \<Rightarrow> nat \<Rightarrow> nat \<Rightarrow> portfolio list
     \<Rightarrow> (error + portfolio) \<times> portfolio list \<times> string list" where
  "refresh yahoo_quote now uid pid db =
     (case findOne db pid uid of
        None \<Rightarrow> (Inl NotFound, db, [])
      | Some portfolio \<Rightarrow>
          if length (investments portfolio) = 0 then (Inr portfolio, db, [])
          else
            let symbols = set_spread (map symbol (investments portfolio));
                quotes = fst (fetch_quotes yahoo_quote symbols);
                requested = snd (fetch_quotes yahoo_quote symbols);
                changed = portfolio\<lparr>investments :=
                            map (apply_quote quotes now) (investments portfolio)\<rparr>
            in (Inr (fst (save now changed db)), snd (save now changed db), requested))"

subsection \<open>Numeric fields of an investment request\<close>

text \<open>
  The validator \<open>optional().isNumeric()\<close> works on the value as a string: an absent
  field passes; a string passes when it is an optional sign, then digits, or digits (maybe
  none), a point and digits. A JSON number passes when its decimal rendering has no
  exponent, that is when it is 0 or its magnitude is at least \<open>1e-6\<close> and below
  \<open>1e21\<close>; a boolean does not pass.
\<close>

definition is_digit :: "char \<Rightarrow> bool" where
  "is_digit c = (c \<in> set ''0123456789'')"

definition unsigned :: "string \<Rightarrow> string" where
  "unsigned s =
     (case s of
        [] \<Rightarrow> []
      | c # r \<Rightarrow> if c = CHR ''+'' \<or> c = CHR ''-'' then r else s)"

definition isNumeric_string :: "string \<Rightarrow> bool" where
  "isNumeric_string s =
     (case dropWhile is_digit (unsigned s) of
        [] \<Rightarrow> unsigned s \<noteq> []
      | c # fraction \<Rightarrow> c = CHR ''.'' \<and> fraction \<noteq> [] \<and> list_all is_digit fraction)"

fun isNumeric :: "body_value \<Rightarrow> bool" where
  "isNumeric Undefined = True"
| "isNumeric (Boolean b) = False"
| "isNumeric (Number r) = (r = 0 \<or> (1 / 10 ^ 6 \<le> \<bar>r\<bar> \<and> \<bar>r\<bar> < 10 ^ 21))"
| "isNumeric (String s) = isNumeric_string s"

text \<open>
  \<open>parseFloat\<close> on the values the validator lets through: a number is itself, a numeric
  string is the decimal it spells. On any other string the result is given as NaN
  (\<open>None\<close>); the validator has answered 400 before.
\<close>

definition digits_value :: "string \<Rightarrow> nat" where
  "digits_value s = foldl (\<lambda>n c. 10 * n + (of_char c - 48)) 0 s"

definition decimal_value :: "string \<Rightarrow> real" where
  "decimal_value s =
     (case dropWhile is_digit s of
        [] \<Rightarrow> real (digits_value s)
      | c # fraction \<Rightarrow>
          real (digits_value (takeWhile is_digit s))
            + real (digits_value fraction) / 10 ^ length fraction)"

fun parseFloat :: "body_value \<Rightarrow> real option" where
  "parseFloat Undefined = None"
| "parseFloat (Boolean b) = None"
| "parseFloat (Number r) = Some r"
| "parseFloat (String s) =
     (if \<not> isNumeric_string s then None
      else if take 1 s = ''-'' then Some (- decimal_value (unsigned s))
      else Some (decimal_value (unsigned s)))"

subsection \<open>\<open>PUT /:id/investment/:investmentId\<close>\<close>

text \<open>
  The request body. \<open>sector\<close> and \<open>notes\<close> are strings, \<open>None\<close> when absent. The
  route tests \<open>purchaseDate\<close> for truthiness: \<open>None\<close> is an absent or falsy value,
  \<open>Some d\<close> a truthy value, which the Date path casts to the instant \<open>d\<close>. (A truthy
  value that is no date is not modelled.)
\<close>

record investment_body =
  body_shares :: body_value
  body_purchasePrice :: body_value
  body_purchaseDate :: "int option"
  body_sector :: "string option"
  body_notes :: "string option"

text \<open>
  The five conditional assignments, in the source's order; the schema trims \<open>sector\<close>
  and \<open>notes\<close>. Assigning NaN to a Number path is a cast error, found when the
  document is saved: \<open>None\<close>.
\<close>

definition assign_fields ::
  "(string \<Rightarrow> string) \<Rightarrow> investment_body \<Rightarrow> investment \<Rightarrow> investment option" where
  "assign_fields trim body investment =
     (let i1 = (if truthy_value (body_shares body)
                then map_option (\<lambda>v. investment\<lparr>shares := v\<rparr>) (parseFloat (body_shares body))
                else Some investment);
          i2 = (if truthy_value (body_purchasePrice body)
                then (case parseFloat (body_purchasePrice body) of
                        None \<Rightarrow> None
                      | Some v \<Rightarrow> map_option (\<lambda>i. i\<lparr>purchasePrice := v\<rparr>) i1)
                else i1);
          i3 = (case body_purchaseDate body of
                  None \<Rightarrow> i2
                | Some d \<Rightarrow> map_option (\<lambda>i. i\<lparr>purchaseDate := d\<rparr>) i2);
          i4 = (case body_sector body of
                  None \<Rightarrow> i3
                | Some s \<Rightarrow> if s = [] then i3
                            else map_option (\<lambda>i. i\<lparr>sector := Some (trim s)\<rparr>) i3);
          i5 = (case body_notes body of
                  None \<Rightarrow> i4
                | Some n \<Rightarrow> map_option (\<lambda>i. i\<lparr>investment_notes := Some (trim n)\<rparr>) i4)
      in i5)"

text \<open>The attempt to refresh the price of the one lot; a failed quote changes nothing.\<close>

definition try_quote :: "(string \<Rightarrow> quote_outcome) \<Rightarrow> int \<Rightarrow> investment \<Rightarrow> investment" where
  "try_quote yahoo_quote now investment =
     (case yahoo_quote (symbol investment) of
        QuoteError \<Rightarrow> investment
      | Quote price \<Rightarrow> investment\<lparr>currentPrice := price, lastUpdated := now\<rparr>)"

text \<open>\<open>portfolio.investments.id(investmentId)\<close> and the write to that subdocument.\<close>

definition investment_by_id :: "investment list \<Rightarrow> nat \<Rightarrow> investment option" where
  "investment_by_id lots investmentId = find (\<lambda>i. inv_id i = investmentId) lots"

fun replace_by_id :: "nat \<Rightarrow> investment \<Rightarrow> investment list \<Rightarrow> investment list" where
  "replace_by_id investmentId new [] = []"
| "replace_by_id investmentId new (i # rest) =
     (if inv_id i = investmentId then new # rest
      else i # replace_by_id investmentId new rest)"

text \<open>
  The route. The schema's \<open>min: 0\<close> validators on \<open>shares\<close> and \<open>purchasePrice\<close> run
  when the document is saved; a failure there, like a cast error, answers 500 and writes
  nothing.
\<close>

definition update_investment ::
  "(string \<Rightarrow> string) \<Rightarrow> (string \<Rightarrow> quote_outcome) \<Rightarrow> int \<Rightarrow> nat \<Rightarrow> nat \<Rightarrow> nat
     \<Rightarrow> investment_body \<Rightarrow> portfolio list \<Rightarrow> (error + portfolio) \<times> portfolio list" where
  "update_investment trim yahoo_quote now uid pid investmentId body db =
     (if \<not> isNumeric (body_shares body) \<or> \<not> isNumeric (body_purchasePrice body)
      then (Inl BadRequest, db)
      else case findOne db pid uid of
        None \<Rightarrow> (Inl NotFound, db)
      | Some portfolio \<Rightarrow>
          (case investment_by_id (investments portfolio) investmentId of
             None \<Rightarrow> (Inl NotFound, db)
           | Some investment \<Rightarrow>
               (case assign_fields trim body investment of
                  None \<Rightarrow> (Inl ServerError, db)
                | Some assigned \<Rightarrow>
                    let quoted = try_quote yahoo_quote now assigned;
                        changed = portfolio\<lparr>investments :=
                          replace_by_id investmentId quoted (investments portfolio)\<rparr>
                    in if shares quoted < 0 \<or> purchasePrice quoted < 0
                       then (Inl ServerError, db)
                       else (Inr (fst (save now changed db)), snd (save now changed db)))))"

subsection \<open>\<open>POST /:id/investment\<close>\<close>

text \<open>
  The request body has the fields of the update, and \<open>symbol\<close> (the empty string when
  missing) and \<open>name\<close>. Here \<open>shares\<close> and \<open>purchasePrice\<close> are required: the validator
  \<open>isNumeric()\<close> without \<open>optional()\<close> rejects an absent field.
\<close>

record new_investment_body = investment_body +
  body_symbol :: string
  body_investment_name :: "string option"

definition required_numeric :: "body_value \<Rightarrow> bool" where
  "required_numeric v = (v \<noteq> Undefined \<and> isNumeric v)"

text \<open>A new subdocument gets an id that no stored lot has.\<close>

definition new_investment_id :: "portfolio list \<Rightarrow> nat" where
  "new_investment_id db = Suc (foldr max (map inv_id (concat (map investments db))) 0)"

text \<open>
  The route. The quote is asked for the symbol as sent. \<open>currentPrice\<close> is the quote's
  price; the sent purchase price, cast to a number, when the quote throws; and the schema
  default 0 when the quote has no price. The symbol is upper-cased by the route and again,
  with \<open>trim\<close>, by the schema's setters; \<open>toUpperCase\<close>, like \<open>trim\<close>, is a built-in
  and a parameter. The schema's validators (\<open>symbol\<close> required, \<open>min: 0\<close> on \<open>shares\<close>
  and \<open>purchasePrice\<close>) run when the document is saved; a failure there answers 500 and
  writes nothing.
\<close>

definition add_investment ::
  "(string \<Rightarrow> string) \<Rightarrow> (string \<Rightarrow> string) \<Rightarrow> (string \<Rightarrow> quote_outcome) \<Rightarrow> int \<Rightarrow> nat \<Rightarrow> nat
     \<Rightarrow> new_investment_body \<Rightarrow> portfolio list \<Rightarrow> (error + portfolio) \<times> portfolio list" where
  "add_investment trim toUpperCase yahoo_quote now uid pid body db =
     (if body_symbol body = [] \<or> \<not> required_numeric (body_shares body)
         \<or> \<not> required_numeric (body_purchasePrice body)
      then (Inl BadRequest, db)
      else case findOne db pid uid of
        None \<Rightarrow> (Inl NotFound, db)
      | Some portfolio \<Rightarrow>
          (case parseFloat (body_shares body) of
             None \<Rightarrow> (Inl ServerError, db)
           | Some sh \<Rightarrow>
               (case parseFloat (body_purchasePrice body) of
                  None \<Rightarrow> (Inl ServerError, db)
                | Some pp \<Rightarrow>
                    let investment =
                          \<lparr> inv_id = new_investment_id db,
                            symbol = trim (toUpperCase (toUpperCase (body_symbol body))),
                            name = Some (trim
                              (case body_investment_name body of
                                 None \<Rightarrow> toUpperCase (body_symbol body)
                               | Some n \<Rightarrow> if n = [] then toUpperCase (body_symbol body)
                                           else n)),
                            shares = sh,
                            purchasePrice = pp,
                            purchaseDate =
                              (case body_purchaseDate body of None \<Rightarrow> now | Some d \<Rightarrow> d),
                            sector = map_option trim (body_sector body),
                            investment_notes = map_option trim (body_notes body),
                            currentPrice =
                              (case yahoo_quote (body_symbol body) of
                                 QuoteError \<Rightarrow> Some pp
                               | Quote None \<Rightarrow> Some 0
                               | Quote (Some price) \<Rightarrow> Some price),
                            lastUpdated = now \<rparr>;
                        changed = portfolio\<lparr>investments :=
                                    investments portfolio @ [investment]\<rparr>
                    in if symbol investment = [] \<or> sh < 0 \<or> pp < 0
                       then (Inl ServerError, db)
                       else (Inr (fst (save now changed db)), snd (save now changed db)))))"

subsection \<open>\<open>DELETE /:id/investment/:investmentId\<close>\<close>

definition delete_investment ::
  "int \<Rightarrow> nat \<Rightarrow> nat \<Rightarrow> nat \<Rightarrow> portfolio list \<Rightarrow> (error + portfolio) \<times> portfolio list" where
  "delete_investment now uid pid investmentId db =
     (case findOne db pid uid of
        None \<Rightarrow> (Inl NotFound, db)
      | Some portfolio \<Rightarrow>
          (case investment_by_id (investments portfolio) investmentId of
             None \<Rightarrow> (Inl NotFound, db)
           | Some investment \<Rightarrow>
               let changed = portfolio\<lparr>investments :=
                     filter (\<lambda>i. inv_id i \<noteq> investmentId) (investments portfolio)\<rparr>
               in (Inr (fst (save now changed db)), snd (save now changed db))))"

section \<open>Sequences of requests and the default-portfolio invariant\<close>

text \<open>
  The seven requests that write to the collection, with their parameters. A sequence of
  them is run one request after another, each to its end before the next starts, from
  the empty collection.
\<close>

datatype operation =
    CreatePortfolio int nat portfolio_body
  | UpdatePortfolio int nat nat portfolio_body
  | DeletePortfolio nat nat
  | AddInvestment "string \<Rightarrow> quote_outcome" int nat nat new_investment_body
  | UpdateInvestment "string \<Rightarrow> quote_outcome" int nat nat nat investment_body
  | DeleteInvestment int nat nat nat
  | RefreshPrices "string \<Rightarrow> quote_outcome" int nat nat

fun perform ::
  "(string \<Rightarrow> string) \<Rightarrow> (string \<Rightarrow> string) \<Rightarrow> operation \<Rightarrow> portfolio list \<Rightarrow> portfolio list" where
  "perform trim toUpperCase (CreatePortfolio now uid body) db =
     snd (create_portfolio trim now uid body db)"
| "perform trim toUpperCase (UpdatePortfolio now uid pid body) db =
     snd (update_portfolio trim now uid pid body db)"
| "perform trim toUpperCase (DeletePortfolio uid pid) db = snd (delete_portfolio uid pid db)"
| "perform trim toUpperCase (AddInvestment q now uid pid body) db =
     snd (add_investment trim toUpperCase q now uid pid body db)"
| "perform trim toUpperCase (UpdateInvestment q now uid pid investmentId body) db =
     snd (update_investment trim q now uid pid investmentId body db)"
| "perform trim toUpperCase (DeleteInvestment now uid pid investmentId) db =
     snd (delete_investment now uid pid investmentId db)"
| "perform trim toUpperCase (RefreshPrices q now uid pid) db =
     fst (snd (refresh q now uid pid db))"

text \<open>
  The invariant: no two stored portfolios share an id, and no two default portfolios
  share an owner.
\<close>

definition at_most_one_default :: "portfolio list \<Rightarrow> bool" where
  "at_most_one_default db = distinct (map user (filter isDefault db))"

definition well_formed :: "portfolio list \<Rightarrow> bool" where
  "well_formed db = (distinct (map portfolio_id db) \<and> at_most_one_default db)"

text \<open>The stored totals of a portfolio are those of its lots.\<close>

definition totals_consistent :: "portfolio \<Rightarrow> bool" where
  "totals_consistent p =
     (totalCost p = (\<Sum>lot\<leftarrow>investments p. purchasePrice lot * shares lot)
      \<and> totalValue p = (\<Sum>lot\<leftarrow>investments p. effectivePrice lot * shares lot))"

section \<open>The specification's wording, for comparison\<close>

text \<open>
  The holding period as the specification words it: the whole number of days between the
  purchase and the evaluation instant, fractions dropped.
\<close>

definition spec_holdingDays :: "int \<Rightarrow> investment \<Rightarrow> int" where
  "spec_holdingDays now lot = \<lfloor>holdingPeriod now lot\<rfloor>"

text \<open>
  The effective price as the specification words it: \<open>currentPrice\<close> only when it is
  present and positive, the purchase price otherwise.
\<close>

definition spec_effectivePrice :: "investment \<Rightarrow> real" where
  "spec_effectivePrice lot =
     (case currentPrice lot of
        None \<Rightarrow> purchasePrice lot
      | Some c \<Rightarrow> if 0 < c then c else purchasePrice lot)"

section \<open>Concrete inputs\<close>

text \<open>Concrete lots used to evaluate the definitions.\<close>

definition lot_A :: investment where
  "lot_A = \<lparr> inv_id = 1, symbol = ''A'', name = None, shares = 100, purchasePrice = 10,
             purchaseDate = 0, sector = None, investment_notes = None, currentPrice = Some 15,
             lastUpdated = 0 \<rparr>"

definition lot_B :: investment where
  "lot_B = \<lparr> inv_id = 2, symbol = ''B'', name = None, shares = 50, purchasePrice = 20,
             purchaseDate = 0, sector = None, investment_notes = None, currentPrice = Some 12,
             lastUpdated = 0 \<rparr>"

text \<open>A lot that never received a quote: \<open>currentPrice\<close> is the schema default 0.\<close>

definition lot_unquoted :: investment where
  "lot_unquoted = \<lparr> inv_id = 3, symbol = ''C'', name = None, shares = 5, purchasePrice = 10,
             purchaseDate = 0, sector = None, investment_notes = None, currentPrice = Some 0,
             lastUpdated = 0 \<rparr>"

text \<open>A lot whose quote is negative (the schema puts no minimum on \<open>currentPrice\<close>).\<close>

definition lot_negative :: investment where
  "lot_negative = \<lparr> inv_id = 4, symbol = ''CL=F'', name = None, shares = 3, purchasePrice = 10,
             purchaseDate = 0, sector = None, investment_notes = None, currentPrice = Some (- 2),
             lastUpdated = 0 \<rparr>"

definition portfolio_of :: "investment list \<Rightarrow> portfolio" where
  "portfolio_of lots = \<lparr> portfolio_id = 7, user = 3, portfolio_name = ''Main'',
             description = None, investments = lots, totalValue = 0, totalCost = 0,
             createdAt = 0, updatedAt = 0, isDefault = False \<rparr>"

text \<open>A lot bought on 15 June 2025 (UTC).\<close>

definition lot_late :: investment where
  "lot_late = \<lparr> inv_id = 5, symbol = ''D'', name = None, shares = 7, purchasePrice = 30,
             purchaseDate = 1750000000000, sector = None, investment_notes = None,
             currentPrice = Some 40, lastUpdated = 0 \<rparr>"

text \<open>
  The built-ins \<open>String.prototype.trim\<close> and \<open>String.prototype.toUpperCase\<close> on
  ASCII strings, where white space is the space and the five control characters from
  \<open>\\t\<close> to \<open>\\r\<close>, and the letters with an upper case are \<open>a\<close> to \<open>z\<close>.
\<close>

definition is_space :: "char \<Rightarrow> bool" where
  "is_space c = (c \<in> {CHR '' '', CHR 0x09, CHR 0x0A, CHR 0x0B, CHR 0x0C, CHR 0x0D})"

definition trim_ascii :: "string \<Rightarrow> string" where
  "trim_ascii s = rev (dropWhile is_space (rev (dropWhile is_space s)))"

definition toUpperCase_ascii :: "string \<Rightarrow> string" where
  "toUpperCase_ascii s =
     map (\<lambda>c. if c \<in> set ''abcdefghijklmnopqrstuvwxyz''
              then char_of (of_char c - (32 :: nat)) else c) s"

text \<open>
  A default portfolio without lots; a request that renames it and asks for
  \<open>isDefault: false\<close>; and the same request with \<open>isDefault\<close> sent as the string
  "false", as a form-encoded body carries it.
\<close>

definition default_portfolio :: portfolio where
  "default_portfolio = (portfolio_of [])\<lparr>isDefault := True\<rparr>"

definition rename_body :: portfolio_body where
  "rename_body = \<lparr> body_name = ''Growth'', body_description = None,
                   body_isDefault = Boolean False \<rparr>"

definition false_string_body :: portfolio_body where
  "false_string_body = \<lparr> body_name = ''Growth'', body_description = None,
                         body_isDefault = String ''false'' \<rparr>"




definition no_quotes :: "string \<Rightarrow> quote_outcome" where
  "no_quotes s = QuoteError"

text \<open>
  A second lot of the symbol B, and a quote source that fails for every symbol but B, for
  which it returns 14.
\<close>

definition lot_B2 :: investment where
  "lot_B2 = lot_B\<lparr>inv_id := 6, shares := 10\<rparr>"

definition quote_B_only :: "string \<Rightarrow> quote_outcome" where
  "quote_B_only s = (if s = ''B'' then Quote (Some 14) else QuoteError)"

text \<open>
  Requests that create a default portfolio "Core" and a second portfolio "Growth" for
  user 3, the two documents they store, and requests that make "Growth" the default and
  that create a third, default portfolio "Income".
\<close>

definition core_body :: portfolio_body where
  "core_body = \<lparr> body_name = ''Core'', body_description = None, body_isDefault = Boolean True \<rparr>"

definition default_body :: portfolio_body where
  "default_body = \<lparr> body_name = ''Growth'', body_description = None, body_isDefault = Boolean True \<rparr>"

definition income_body :: portfolio_body where
  "income_body = \<lparr> body_name = ''Income'', body_description = None, body_isDefault = Boolean True \<rparr>"

definition core_portfolio :: portfolio where
  "core_portfolio = \<lparr> portfolio_id = Suc 0, user = 3, portfolio_name = ''Core'',
     description = None, investments = [], totalValue = 0, totalCost = 0,
     createdAt = 10, updatedAt = 10, isDefault = True \<rparr>"

definition growth_portfolio :: portfolio where
  "growth_portfolio = \<lparr> portfolio_id = 2, user = 3, portfolio_name = ''Growth'',
     description = None, investments = [], totalValue = 0, totalCost = 0,
     createdAt = 20, updatedAt = 20, isDefault = False \<rparr>"

definition income_portfolio :: portfolio where
  "income_portfolio = \<lparr> portfolio_id = 3, user = 3, portfolio_name = ''Income'',
     description = None, investments = [], totalValue = 0, totalCost = 0,
     createdAt = 40, updatedAt = 40, isDefault = True \<rparr>"

definition two_creates :: "operation list" where
  "two_creates = [CreatePortfolio 10 3 core_body, CreatePortfolio 20 3 rename_body]"

text \<open>
  Requests of user 3 that create the portfolio "Core" and add to it a lot of A and two
  lots of b (sent in lower case), the quote source failing each time; and the portfolio
  they leave in the collection.
\<close>

definition add_A_body :: new_investment_body where
  "add_A_body = \<lparr> body_shares = Number 100, body_purchasePrice = Number 10,
      body_purchaseDate = None, body_sector = None, body_notes = None,
      body_symbol = ''A'', body_investment_name = None \<rparr>"

definition add_b_body :: new_investment_body where
  "add_b_body = \<lparr> body_shares = String ''50'', body_purchasePrice = Number 20,
      body_purchaseDate = None, body_sector = None, body_notes = None,
      body_symbol = ''b'', body_investment_name = None \<rparr>"

definition add_b2_body :: new_investment_body where
  "add_b2_body = \<lparr> body_shares = Number 10, body_purchasePrice = Number 20,
      body_purchaseDate = Some 5, body_sector = None, body_notes = None,
      body_symbol = ''b'', body_investment_name = Some ''B again'' \<rparr>"

definition three_adds :: "operation list" where
  "three_adds = [CreatePortfolio 10 3 core_body,
                 AddInvestment no_quotes 21 3 (Suc 0) add_A_body,
                 AddInvestment no_quotes 22 3 (Suc 0) add_b_body,
                 AddInvestment no_quotes 23 3 (Suc 0) add_b2_body]"

definition held_A :: investment where
  "held_A = \<lparr> inv_id = Suc 0, symbol = ''A'', name = Some ''A'', shares = 100,
      purchasePrice = 10, purchaseDate = 21, sector = None, investment_notes = None,
      currentPrice = Some 10, lastUpdated = 21 \<rparr>"

definition held_B :: investment where
  "held_B = \<lparr> inv_id = 2, symbol = ''B'', name = Some ''B'', shares = 50,
      purchasePrice = 20, purchaseDate = 22, sector = None, investment_notes = None,
      currentPrice = Some 20, lastUpdated = 22 \<rparr>"

definition held_B2 :: investment where
  "held_B2 = \<lparr> inv_id = 3, symbol = ''B'', name = Some ''B again'', shares = 10,
      purchasePrice = 20, purchaseDate = 5, sector = None, investment_notes = None,
      currentPrice = Some 20, lastUpdated = 23 \<rparr>"

definition holdings :: "investment list \<Rightarrow> int \<Rightarrow> real \<Rightarrow> real \<Rightarrow> portfolio" where
  "holdings lots updated cost val = \<lparr> portfolio_id = Suc 0, user = 3, portfolio_name = ''Core'',
     description = None, investments = lots, totalValue = val, totalCost = cost,
     createdAt = 10, updatedAt = updated, isDefault = True \<rparr>"

text \<open>
  Two requests \<open>POST /\<close> of user 3, each for a default portfolio, in flight together on
  the empty collection: both search for the current default before either saves. The
  result is the two responses and the collection.
\<close>

definition interleaved_creates :: "(error + portfolio) \<times> (error + portfolio) \<times> portfolio list" where
  "interleaved_creates =
     (let found1 = create_find 3 core_body [];
          found2 = create_find 3 default_body [];
          cleared1 = create_clear 10 found1 [];
          done1 = create_insert trim_ascii 10 3 core_body cleared1;
          cleared2 = create_clear 20 found2 (snd done1);
          done2 = create_insert trim_ascii 20 3 default_body cleared2
      in (fst done1, fst done2, snd done2))"

section \<open>Properties of the aggregation\<close>

lemma foldl_plus_sum_list:
  "foldl (\<lambda>total x. total + f x) a xs = a + sum_list (map f xs)"
  for a :: real
  by (induction xs arbitrary: a) (simp_all add: add.assoc)

lemma pre_save_investments: "investments (pre_save now p) = investments p"
  by (simp add: pre_save_def)

lemma pre_save_totalCost:
  "totalCost (pre_save now p) = (\<Sum>lot\<leftarrow>investments p. purchasePrice lot * shares lot)"
  by (simp add: pre_save_def foldl_plus_sum_list)

lemma pre_save_totalValue:
  "totalValue (pre_save now p) = (\<Sum>lot\<leftarrow>investments p. effectivePrice lot * shares lot)"
  by (simp add: pre_save_def foldl_plus_sum_list)

text \<open>
  C1 (as amended). For every lot sequence the save hook sets \<open>totalCost\<close> to the sum of
  \<open>purchasePrice * shares\<close> over all lots and \<open>totalValue\<close> to the sum of
  \<open>effectivePrice * shares\<close>, where the effective price of a lot is its \<open>currentPrice\<close>
  when that is present and not zero, whatever its sign, and its \<open>purchasePrice\<close>
  otherwise; with no lots both totals are 0; and running the hook again on its own result
  (at any later time) gives the same totals.
\<close>

theorem C1_aggregation_with_fallback:
  "totalCost (pre_save now p) = (\<Sum>lot\<leftarrow>investments p. purchasePrice lot * shares lot)
   \<and> totalValue (pre_save now p) =
       (\<Sum>lot\<leftarrow>investments p.
          (case currentPrice lot of
             None \<Rightarrow> purchasePrice lot
           | Some c \<Rightarrow> if c = 0 then purchasePrice lot else c) * shares lot)
   \<and> totalCost (pre_save now (p\<lparr>investments := []\<rparr>)) = 0
   \<and> totalValue (pre_save now (p\<lparr>investments := []\<rparr>)) = 0
   \<and> totalCost (pre_save later (pre_save now p)) = totalCost (pre_save now p)
   \<and> totalValue (pre_save later (pre_save now p)) = totalValue (pre_save now p)"
  by (simp add: pre_save_totalCost pre_save_totalValue pre_save_investments)
    (simp add: effectivePrice_def)

text \<open>
  C1 as stated, with the effective price the specification defines (\<open>currentPrice\<close> only
  when positive), fails on a lot with a negative quote: the hook adds the negative price
  times the shares, where the specification's sum has the purchase price.
\<close>

theorem C1_negative_quote_counterexample:
  "totalValue (pre_save 0 (portfolio_of [lot_A, lot_negative])) = 1494
   \<and> (\<Sum>lot\<leftarrow>[lot_A, lot_negative]. spec_effectivePrice lot * shares lot) = 1530
   \<and> totalCost (pre_save 0 (portfolio_of [lot_A, lot_negative])) = 1030"
  by (simp add: effectivePrice_def spec_effectivePrice_def pre_save_def lot_A_def
      lot_negative_def portfolio_of_def)

section \<open>The effective price\<close>

text \<open>
  C8 (as amended). The effective price used in valuation is \<open>currentPrice\<close> whenever it
  is present and not zero, whatever its sign, and \<open>purchasePrice\<close> when it is absent or
  zero; a lot whose \<open>currentPrice\<close> is absent or zero is valued at
  \<open>purchasePrice * shares\<close> in \<open>totalValue\<close>.
\<close>

theorem C8_effective_price_nonzero:
  "(currentPrice lot = Some c \<and> c \<noteq> 0 \<longrightarrow> effectivePrice lot = c)
   \<and> (currentPrice lot = None \<or> currentPrice lot = Some 0 \<longrightarrow>
        effectivePrice lot = purchasePrice lot
        \<and> totalValue (pre_save now (p\<lparr>investments := [lot]\<rparr>)) = purchasePrice lot * shares lot)"
  by (auto simp: effectivePrice_def pre_save_def)

theorem C8_effective_price_nonzero_witness:
  "currentPrice lot_negative = Some (- 2) \<and> (- 2 :: real) \<noteq> 0
   \<and> effectivePrice lot_negative = - 2
   \<and> currentPrice lot_unquoted = Some 0
   \<and> effectivePrice lot_unquoted = 10
   \<and> totalValue (pre_save 0 (portfolio_of [lot_unquoted])) = 50"
  using C8_effective_price_nonzero [of lot_negative "- 2"]
    C8_effective_price_nonzero [of lot_unquoted 0 0 "portfolio_of []"]
  by (simp add: lot_negative_def lot_unquoted_def portfolio_of_def)

text \<open>
  C8 as stated fails on a negative quote: the lot is valued at the negative price, not at
  its purchase price.
\<close>

theorem C8_negative_price_counterexample:
  "currentPrice lot_negative = Some (- 2)
   \<and> effectivePrice lot_negative = - 2
   \<and> spec_effectivePrice lot_negative = 10
   \<and> effectivePrice lot_negative \<noteq> purchasePrice lot_negative
   \<and> totalValue (pre_save 0 (portfolio_of [lot_negative])) = - 6
   \<and> purchasePrice lot_negative * shares lot_negative = 30"
  by (simp add: effectivePrice_def spec_effectivePrice_def pre_save_def lot_negative_def
      portfolio_of_def)

section \<open>Holding period\<close>

lemma isLongTerm_iff:
  "isLongTerm (investmentsData_entry now lot) \<longleftrightarrow> 31536000000 < now - purchaseDate lot"
proof -
  have "holdingPeriod now lot > 365 \<longleftrightarrow> real_of_int (now - purchaseDate lot) > 31536000000"
    unfolding holdingPeriod_def by (simp add: field_simps)
  also have "\<dots> \<longleftrightarrow> 31536000000 < now - purchaseDate lot"
    by linarith
  finally show ?thesis by (simp add: investmentsData_entry_def)
qed

text \<open>
  C3 (as amended). The holding period is the exact elapsed time in days, fractions kept,
  and a lot is long-term iff more than 365 days' worth of milliseconds have elapsed since
  its purchase; a lot held exactly 365 days is short-term.
\<close>

theorem C3_long_term_exact_elapsed_time:
  "(isLongTerm (investmentsData_entry now lot) \<longleftrightarrow> 365 * 86400000 < now - purchaseDate lot)
   \<and> holdingPeriod now lot = real_of_int (now - purchaseDate lot) / 86400000
   \<and> \<not> isLongTerm (investmentsData_entry (purchaseDate lot + 365 * 86400000) lot)"
  by (simp add: isLongTerm_iff) (simp add: holdingPeriod_def)

text \<open>
  C3 as stated fails for a lot held 365 days and 12 hours: its whole number of days is
  365, which is not more than 365, yet the route classifies it long-term.
\<close>

theorem C3_fractional_day_counterexample:
  "spec_holdingDays 31579200000 lot_A = 365
   \<and> \<not> 365 < spec_holdingDays 31579200000 lot_A
   \<and> isLongTerm (investmentsData_entry 31579200000 lot_A)"
proof -
  have hp: "holdingPeriod 31579200000 lot_A = 731 / 2"
    by (simp add: holdingPeriod_def lot_A_def)
  have fl: "\<lfloor>731 / 2 :: real\<rfloor> = 365"
    by (simp add: floor_eq_iff)
  have days: "spec_holdingDays 31579200000 lot_A = 365"
    unfolding spec_holdingDays_def hp by (rule fl)
  have long: "isLongTerm (investmentsData_entry 31579200000 lot_A)"
    unfolding investmentsData_entry_def hp by simp
  show ?thesis
    using days long by simp
qed

section \<open>Reading a document\<close>

lemma applyDefaults_keeps [simp]:
  "inv_id (applyDefaults lot) = inv_id lot"
  "symbol (applyDefaults lot) = symbol lot"
  "shares (applyDefaults lot) = shares lot"
  "purchasePrice (applyDefaults lot) = purchasePrice lot"
  "lastUpdated (applyDefaults lot) = lastUpdated lot"
  "effectivePrice (applyDefaults lot) = effectivePrice lot"
  by (simp_all add: applyDefaults_def effectivePrice_def split: option.splits)

lemma applyDefaults_priced: "currentPrice lot = Some c \<Longrightarrow> applyDefaults lot = lot"
  by (simp add: applyDefaults_def)

lemma applyDefaults_idem [simp]: "applyDefaults (applyDefaults lot) = applyDefaults lot"
  by (simp add: applyDefaults_def split: option.splits)

lemma hydrate_keeps [simp]:
  "portfolio_id (hydrate p) = portfolio_id p"
  "user (hydrate p) = user p"
  "isDefault (hydrate p) = isDefault p"
  "portfolio_name (hydrate p) = portfolio_name p"
  "totalCost (hydrate p) = totalCost p"
  "totalValue (hydrate p) = totalValue p"
  "investments (hydrate p) = map applyDefaults (investments p)"
  by (simp_all add: hydrate_def)

lemma findOne_Some_D:
  assumes "findOne db pid uid = Some p"
  shows "\<exists>q \<in> set db. p = hydrate q \<and> portfolio_id q = pid \<and> user q = uid"
    and "portfolio_id p = pid" and "user p = uid"
  using assms by (auto simp: findOne_def find_Some_iff)

lemma applyDefaults_lots [simp]:
  "applyDefaults lot_A = lot_A" "applyDefaults lot_B = lot_B"
  "applyDefaults lot_B2 = lot_B2" "applyDefaults lot_unquoted = lot_unquoted"
  "applyDefaults lot_negative = lot_negative" "applyDefaults lot_late = lot_late"
  "applyDefaults held_A = held_A" "applyDefaults held_B = held_B"
  "applyDefaults held_B2 = held_B2"
  by (simp_all add: applyDefaults_def lot_A_def lot_B_def lot_B2_def lot_unquoted_def
      lot_negative_def lot_late_def held_A_def held_B_def held_B2_def)

lemma findOne_portfolio_of:
  "findOne [portfolio_of lots] 7 3 = Some (portfolio_of (map applyDefaults lots))"
  by (simp add: findOne_def portfolio_of_def hydrate_def)

section \<open>Capital gains: the year filter\<close>

lemma utcFullYear_epoch: "utcFullYear 0 = 1970"
  by code_simp

lemma utcFullYear_lot_late: "utcFullYear 1750000000000 = 2025"
  by code_simp

lemma isLongTerm_entry:
  "isLongTerm (investmentsData_entry now lot) = (holdingPeriod now lot > 365)"
  by (simp add: investmentsData_entry_def)

lemma filter_isLongTerm_entries:
  "filter (\<lambda>e. isLongTerm e) (map (investmentsData_entry now) lots)
     = map (investmentsData_entry now) (filter (\<lambda>lot. holdingPeriod now lot > 365) lots)"
  by (simp add: filter_map comp_def isLongTerm_entry)

lemma filter_not_isLongTerm_entries:
  "filter (\<lambda>e. \<not> isLongTerm e) (map (investmentsData_entry now) lots)
     = map (investmentsData_entry now) (filter (\<lambda>lot. \<not> holdingPeriod now lot > 365) lots)"
  by (simp add: filter_map comp_def isLongTerm_entry)

lemma js_add_zero: "js_add (Some 0) (Some 0) = Some 0"
  by (simp add: js_add_def)

lemma calculate_gains_empty:
  assumes "2000 \<le> year" "year \<le> 2100" "findOne db pid uid = Some p"
    and "relevantInvestments getFullYear year (investments p) = []"
  shows "calculate_gains getFullYear now db uid pid year =
     Inr \<lparr> gd_year = year, shortTermGains = Some 0, longTermGains = Some 0,
           totalGains = Some 0, gd_investments = [] \<rparr>"
  using assms by (simp add: calculate_gains_def)

lemma calculate_gains_nonempty:
  assumes "2000 \<le> year" "year \<le> 2100" "findOne db pid uid = Some p"
    and "relevantInvestments getFullYear year (investments p) \<noteq> []"
  shows "\<exists>r. calculate_gains getFullYear now db uid pid year = Inr r
     \<and> gd_investments r = map (investmentsData_entry now)
             (relevantInvestments getFullYear year (investments p))
     \<and> shortTermGains r = foldl (\<lambda>total e. js_add total (unrealizedGain e)) (Some 0)
             (filter (\<lambda>e. \<not> isLongTerm e) (gd_investments r))
     \<and> longTermGains r = foldl (\<lambda>total e. js_add total (unrealizedGain e)) (Some 0)
             (filter (\<lambda>e. isLongTerm e) (gd_investments r))
     \<and> totalGains r = js_add (shortTermGains r) (longTermGains r)"
  using assms by (simp add: calculate_gains_def Let_def)

text \<open>
  C5. For a valid year and a portfolio that is found, the route answers with data, never an
  error. The breakdown holds exactly the lots whose purchase year is at most the target
  year, in their order; the two sums range over those lots only, split by holding period,
  so a lot bought after the target year is in no bucket and no breakdown entry; and when no
  lot is eligible the answer is all zeros with an empty breakdown.
\<close>

theorem C5_gains_year_filter:
  assumes "2000 \<le> year" and "year \<le> 2100" and "findOne db pid uid = Some p"
  shows "\<exists>r. calculate_gains getFullYear now db uid pid year = Inr r
    \<and> gd_investments r = map (investmentsData_entry now)
          (filter (\<lambda>lot. getFullYear (purchaseDate lot) \<le> year) (investments p))
    \<and> shortTermGains r =
          foldl (\<lambda>total lot. js_add total (unrealizedGain (investmentsData_entry now lot))) (Some 0)
            (filter (\<lambda>lot. \<not> holdingPeriod now lot > 365)
              (filter (\<lambda>lot. getFullYear (purchaseDate lot) \<le> year) (investments p)))
    \<and> longTermGains r =
          foldl (\<lambda>total lot. js_add total (unrealizedGain (investmentsData_entry now lot))) (Some 0)
            (filter (\<lambda>lot. holdingPeriod now lot > 365)
              (filter (\<lambda>lot. getFullYear (purchaseDate lot) \<le> year) (investments p)))
    \<and> totalGains r = js_add (shortTermGains r) (longTermGains r)
    \<and> ((\<forall>lot \<in> set (investments p). year < getFullYear (purchaseDate lot)) \<longrightarrow>
          r = \<lparr> gd_year = year, shortTermGains = Some 0, longTermGains = Some 0,
                totalGains = Some 0, gd_investments = [] \<rparr>)"
proof (cases "relevantInvestments getFullYear year (investments p) = []")
  case True
  then have none: "filter (\<lambda>lot. getFullYear (purchaseDate lot) \<le> year) (investments p) = []"
    by (simp add: relevantInvestments_def)
  show ?thesis
    unfolding calculate_gains_empty [OF assms True] none
    by (simp add: js_add_zero)
next
  case False
  then have some: "\<not> (\<forall>lot \<in> set (investments p). year < getFullYear (purchaseDate lot))"
    by (fastforce simp: relevantInvestments_def filter_empty_conv)
  from calculate_gains_nonempty [OF assms False, of now]
  obtain r where r: "calculate_gains getFullYear now db uid pid year = Inr r"
    "gd_investments r = map (investmentsData_entry now)
             (relevantInvestments getFullYear year (investments p))"
    "shortTermGains r = foldl (\<lambda>total e. js_add total (unrealizedGain e)) (Some 0)
             (filter (\<lambda>e. \<not> isLongTerm e) (gd_investments r))"
    "longTermGains r = foldl (\<lambda>total e. js_add total (unrealizedGain e)) (Some 0)
             (filter (\<lambda>e. isLongTerm e) (gd_investments r))"
    "totalGains r = js_add (shortTermGains r) (longTermGains r)"
    by blast
  have short: "shortTermGains r =
          foldl (\<lambda>total lot. js_add total (unrealizedGain (investmentsData_entry now lot))) (Some 0)
            (filter (\<lambda>lot. \<not> holdingPeriod now lot > 365)
              (filter (\<lambda>lot. getFullYear (purchaseDate lot) \<le> year) (investments p)))"
    unfolding r(3) r(2) filter_not_isLongTerm_entries foldl_map relevantInvestments_def ..
  have long: "longTermGains r =
          foldl (\<lambda>total lot. js_add total (unrealizedGain (investmentsData_entry now lot))) (Some 0)
            (filter (\<lambda>lot. holdingPeriod now lot > 365)
              (filter (\<lambda>lot. getFullYear (purchaseDate lot) \<le> year) (investments p)))"
    unfolding r(4) r(2) filter_isLongTerm_entries foldl_map relevantInvestments_def ..
  show ?thesis
    using r(1) r(2) short long r(5) some
    unfolding relevantInvestments_def by blast
qed

lemma investments_portfolio_of: "investments (portfolio_of lots) = lots"
  by (simp add: portfolio_of_def)

lemma gains_lot_A_and_late:
  "calculate_gains utcFullYear 1767225600000 [portfolio_of [lot_A, lot_late]] 3 7 2024 =
     Inr \<lparr> gd_year = 2024, shortTermGains = Some 0, longTermGains = Some 500,
           totalGains = Some 500,
           gd_investments = [investmentsData_entry 1767225600000 lot_A] \<rparr>"
proof -
  have years: "utcFullYear (purchaseDate lot_A) = 1970" "utcFullYear (purchaseDate lot_late) = 2025"
    by (simp_all add: lot_A_def lot_late_def utcFullYear_epoch utcFullYear_lot_late)
  have entry: "isLongTerm (investmentsData_entry 1767225600000 lot_A)"
    "unrealizedGain (investmentsData_entry 1767225600000 lot_A) = Some 500"
    by (simp_all add: investmentsData_entry_def holdingPeriod_def lot_A_def js_sub_def js_mul_def)
  show ?thesis
    by (simp add: calculate_gains_def findOne_portfolio_of investments_portfolio_of
        relevantInvestments_def years entry js_add_def Let_def)
qed

lemma gains_lot_late_only:
  "calculate_gains utcFullYear 1767225600000 [portfolio_of [lot_late]] 3 7 2024 =
     Inr \<lparr> gd_year = 2024, shortTermGains = Some 0, longTermGains = Some 0,
           totalGains = Some 0, gd_investments = [] \<rparr>"
proof -
  have years: "utcFullYear (purchaseDate lot_late) = 2025"
    by (simp add: lot_late_def utcFullYear_lot_late)
  show ?thesis
    by (simp add: calculate_gains_def findOne_portfolio_of investments_portfolio_of
        relevantInvestments_def years)
qed

theorem C5_gains_year_filter_witness:
  "(2000 :: int) \<le> 2024 \<and> (2024 :: int) \<le> 2100
   \<and> findOne [portfolio_of [lot_A, lot_late]] 7 3 = Some (portfolio_of [lot_A, lot_late])
   \<and> calculate_gains utcFullYear 1767225600000 [portfolio_of [lot_A, lot_late]] 3 7 2024 =
       Inr \<lparr> gd_year = 2024, shortTermGains = Some 0, longTermGains = Some 500,
             totalGains = Some 500,
             gd_investments = [investmentsData_entry 1767225600000 lot_A] \<rparr>
   \<and> findOne [portfolio_of [lot_late]] 7 3 = Some (portfolio_of [lot_late])
   \<and> 2024 < utcFullYear (purchaseDate lot_late)
   \<and> calculate_gains utcFullYear 1767225600000 [portfolio_of [lot_late]] 3 7 2024 =
       Inr \<lparr> gd_year = 2024, shortTermGains = Some 0, longTermGains = Some 0,
             totalGains = Some 0, gd_investments = [] \<rparr>"
proof -
  have "utcFullYear (purchaseDate lot_late) = 2025"
    by (simp add: lot_late_def utcFullYear_lot_late)
  then show ?thesis
    using C5_gains_year_filter [of 2024 "[portfolio_of [lot_A, lot_late]]" 7 3
        "portfolio_of [lot_A, lot_late]" utcFullYear 1767225600000]
      C5_gains_year_filter [of 2024 "[portfolio_of [lot_late]]" 7 3
        "portfolio_of [lot_late]" utcFullYear 1767225600000]
    by (simp add: findOne_portfolio_of gains_lot_A_and_late gains_lot_late_only)
qed

section \<open>The loss-harvesting selector\<close>

lemma js_lt_Some: "js_lt a (Some y) \<longleftrightarrow> (\<exists>x. a = Some x \<and> x < y)"
  by (cases a) (simp_all add: js_lt_def)

lemma totalLoss_entry:
  "currentPrice lot = Some c \<Longrightarrow>
     totalLoss (loss_entry_of lot) = Some ((purchasePrice lot - c) * shares lot)"
  by (simp add: loss_entry_of_def js_sub_def js_mul_def)

lemma insert_by_insort_key:
  assumes "key x \<noteq> None" and "\<forall>y \<in> set ys. key y \<noteq> None"
  shows "insert_by (\<lambda>a b. js_sub (key b) (key a)) x ys = insort_key (\<lambda>e. - the (key e)) x ys"
  using assms by (induction ys) (auto simp: js_sub_def)

lemma array_sort_sort_key:
  assumes "\<forall>x \<in> set xs. key x \<noteq> None"
  shows "array_sort (\<lambda>a b. js_sub (key b) (key a)) xs = sort_key (\<lambda>e. - the (key e)) xs"
  using assms
proof (induction xs)
  case Nil
  then show ?case by (simp add: array_sort_def)
next
  case (Cons x xs)
  then have "foldr (insert_by (\<lambda>a b. js_sub (key b) (key a))) xs []
               = sort_key (\<lambda>e. - the (key e)) xs"
    by (simp add: array_sort_def)
  moreover have "\<forall>y \<in> set (sort_key (\<lambda>e. - the (key e)) xs). key y \<noteq> None"
    using Cons.prems by simp
  ultimately show ?case
    using Cons.prems by (simp add: array_sort_def insert_by_insort_key)
qed

lemma investmentsWithLosses_sort_key:
  "investmentsWithLosses lots =
     sort_key (\<lambda>e. - the (totalLoss e))
       (map loss_entry_of
         (filter (\<lambda>lot. js_lt (currentPrice lot) (Some (purchasePrice lot))) lots))"
  unfolding investmentsWithLosses_def
  by (rule array_sort_sort_key) (auto simp: js_lt_Some totalLoss_entry)

text \<open>
  What the selector does: it returns the entries of exactly the lots whose
  \<open>currentPrice\<close> is a number below \<open>purchasePrice\<close>, largest \<open>totalLoss\<close> first, and
  entries of equal loss in the order of their lots.
\<close>

lemma investmentsWithLosses_members:
  "set (investmentsWithLosses lots) =
     loss_entry_of ` {lot \<in> set lots. \<exists>c. currentPrice lot = Some c \<and> c < purchasePrice lot}"
  by (auto simp: investmentsWithLosses_sort_key js_lt_Some)

lemma investmentsWithLosses_descending:
  "sorted_wrt (\<lambda>a b. the (totalLoss a) \<ge> the (totalLoss b)) (investmentsWithLosses lots)"
proof -
  have "sorted (map (\<lambda>e. - the (totalLoss e)) (investmentsWithLosses lots))"
    by (simp add: investmentsWithLosses_sort_key)
  then show ?thesis
    by (simp add: sorted_map sorted_wrt_iff_nth_less)
qed

lemma investmentsWithLosses_stable:
  "filter (\<lambda>e. totalLoss e = Some v) (investmentsWithLosses lots) =
   filter (\<lambda>e. totalLoss e = Some v)
     (map loss_entry_of
       (filter (\<lambda>lot. js_lt (currentPrice lot) (Some (purchasePrice lot))) lots))"
proof -
  let ?xs = "map loss_entry_of
       (filter (\<lambda>lot. js_lt (currentPrice lot) (Some (purchasePrice lot))) lots)"
  have some: "\<forall>e \<in> set (sort_key (\<lambda>e. - the (totalLoss e)) ?xs). totalLoss e \<noteq> None"
    "\<forall>e \<in> set ?xs. totalLoss e \<noteq> None"
    by (auto simp: js_lt_Some totalLoss_entry)
  have "filter (\<lambda>e. totalLoss e = Some v) (sort_key (\<lambda>e. - the (totalLoss e)) ?xs)
          = filter (\<lambda>e. - the (totalLoss e) = - v) (sort_key (\<lambda>e. - the (totalLoss e)) ?xs)"
    using some(1) by (intro filter_cong) auto
  also have "\<dots> = filter (\<lambda>e. - the (totalLoss e) = - v) ?xs"
    by (rule sort_key_stable)
  also have "\<dots> = filter (\<lambda>e. totalLoss e = Some v) ?xs"
    using some(2) by (intro filter_cong) auto
  finally show ?thesis
    by (simp add: investmentsWithLosses_sort_key)
qed

text \<open>The specification's scenario: lot A gains, lot B loses 400.\<close>

lemma scenario_totals:
  "totalCost (pre_save 0 (portfolio_of [lot_A, lot_B])) = 2000"
  "totalValue (pre_save 0 (portfolio_of [lot_A, lot_B])) = 2100"
  by (simp_all add: pre_save_totalCost pre_save_totalValue investments_portfolio_of
      effectivePrice_def lot_A_def lot_B_def)

lemma scenario_losses:
  "map le_symbol (investmentsWithLosses [lot_A, lot_B]) = [''B'']"
  "map totalLoss (investmentsWithLosses [lot_A, lot_B]) = [Some 400]"
  by (simp_all add: investmentsWithLosses_def array_sort_def loss_entry_of_def
      lot_A_def lot_B_def js_lt_def js_sub_def js_mul_def)

section \<open>Capital gains and loss harvesting on a lot without a quote\<close>

lemma gains_lot_unquoted:
  "calculate_gains utcFullYear 1767225600000 [portfolio_of [lot_unquoted]] 3 7 2024 =
     Inr \<lparr> gd_year = 2024, shortTermGains = Some 0, longTermGains = Some (- 50),
           totalGains = Some (- 50),
           gd_investments = [investmentsData_entry 1767225600000 lot_unquoted] \<rparr>"
proof -
  have years: "utcFullYear (purchaseDate lot_unquoted) = 1970"
    by (simp add: lot_unquoted_def utcFullYear_epoch)
  have entry: "isLongTerm (investmentsData_entry 1767225600000 lot_unquoted)"
    "unrealizedGain (investmentsData_entry 1767225600000 lot_unquoted) = Some (- 50)"
    by (simp_all add: investmentsData_entry_def holdingPeriod_def lot_unquoted_def
        js_sub_def js_mul_def)
  show ?thesis
    by (simp add: calculate_gains_def findOne_portfolio_of investments_portfolio_of
        relevantInvestments_def years entry js_add_def Let_def)
qed

text \<open>
  C4 fails on the code. A lot whose \<open>currentPrice\<close> is the schema default 0 has an
  effective price equal to its purchase price, so the claim gives it an unrealized gain of
  0; the route uses \<open>currentPrice\<close> itself and reports the whole cost as a loss.
\<close>

theorem C4_unquoted_lot_gain:
  "currentPrice lot_unquoted = Some 0
   \<and> (effectivePrice lot_unquoted - purchasePrice lot_unquoted) * shares lot_unquoted = 0
   \<and> unrealizedGain (investmentsData_entry now lot_unquoted) = Some (- 50)
   \<and> calculate_gains utcFullYear 1767225600000 [portfolio_of [lot_unquoted]] 3 7 2024 =
       Inr \<lparr> gd_year = 2024, shortTermGains = Some 0, longTermGains = Some (- 50),
             totalGains = Some (- 50),
             gd_investments = [investmentsData_entry 1767225600000 lot_unquoted] \<rparr>"
  by (simp add: gains_lot_unquoted)
    (simp add: investmentsData_entry_def effectivePrice_def lot_unquoted_def js_sub_def js_mul_def)

text \<open>
  C2 fails on the code. The same lot has an effective price that is not below its purchase
  price, so the claim excludes it; the selector compares \<open>currentPrice\<close> itself and
  lists it with its whole cost as the loss.
\<close>

theorem C2_unquoted_lot_selected:
  "currentPrice lot_unquoted = Some 0
   \<and> \<not> effectivePrice lot_unquoted < purchasePrice lot_unquoted
   \<and> map le_symbol (investmentsWithLosses [lot_A, lot_unquoted]) = [''C'']
   \<and> map totalLoss (investmentsWithLosses [lot_A, lot_unquoted]) = [Some 50]"
  by (simp add: investmentsWithLosses_def array_sort_def loss_entry_of_def effectivePrice_def
      lot_A_def lot_unquoted_def js_lt_def js_sub_def js_mul_def)

section \<open>Portfolio update and the default flag\<close>

lemma find_map_replace:
  assumes "find (\<lambda>p. portfolio_id p = pid \<and> user p = uid) db = Some p"
    and "portfolio_id d = pid" and "user d = uid"
  shows "find (\<lambda>p. portfolio_id p = pid \<and> user p = uid)
           (map (\<lambda>p. if portfolio_id p = pid then d else p) db) = Some d"
  using assms by (induction db) (auto split: if_splits)

lemma pre_save_keeps [simp]:
  "portfolio_id (pre_save now p) = portfolio_id p"
  "user (pre_save now p) = user p"
  "isDefault (pre_save now p) = isDefault p"
  "portfolio_name (pre_save now p) = portfolio_name p"
  by (simp_all add: pre_save_def)

lemma findOne_save:
  assumes "findOne db pid uid = Some p" and "portfolio_id d = pid" and "user d = uid"
  shows "findOne (snd (save now d db)) pid uid = Some (hydrate (pre_save now d))"
proof -
  from assms(1) obtain q where q: "find (\<lambda>p. portfolio_id p = pid \<and> user p = uid) db = Some q"
    by (auto simp: findOne_def)
  then have "q \<in> set db" "portfolio_id q = pid"
    by (auto simp: find_Some_iff)
  then have "pid \<in> set (map portfolio_id db)"
    by force
  then show ?thesis
    using assms(2,3) find_map_replace [OF q, of "pre_save now d"]
    by (simp add: save_def findOne_def Let_def)
qed

lemma fst_save: "fst (save now d db) = pre_save now d"
  by (simp add: save_def Let_def)

lemma hydrate_fixed:
  assumes "\<forall>lot \<in> set (investments d). currentPrice lot \<noteq> None"
  shows "hydrate d = d"
proof -
  have "map applyDefaults (investments d) = investments d"
    using assms by (intro map_idI) (auto simp: applyDefaults_def)
  then show ?thesis by (simp add: hydrate_def)
qed

lemma hydrate_loaded:
  assumes "findOne db pid uid = Some p"
  shows "\<forall>lot \<in> set (investments p). currentPrice lot \<noteq> None"
proof -
  from findOne_Some_D(1) [OF assms] obtain q where "p = hydrate q"
    by blast
  then show ?thesis
    by (auto simp: applyDefaults_def split: option.splits)
qed

lemma findOne_updateMany_other:
  assumes "findOne db pid uid = Some p"
  shows "findOne (updateMany (\<lambda>q. user q = u \<and> isDefault q \<and> portfolio_id q \<noteq> pid)
           (\<lambda>q. q\<lparr>isDefault := False\<rparr>) db) pid uid = Some p"
  using assms unfolding findOne_def updateMany_def
  by (induction db) (auto split: if_splits)

text \<open>
  C9 (as amended). When the portfolio is found, a successful update stores and returns a
  document whose \<open>isDefault\<close> is the cast of the request value when that value is
  truthy, and the prior value otherwise. When the request value is absent or a JSON
  boolean this is the requested value (absent counts as false) or-ed with the prior value,
  and whatever the outcome of such a request, a portfolio that was default is still
  default afterwards.
\<close>

theorem C9_update_keeps_default:
  assumes "findOne db pid uid = Some p"
  shows "(\<forall>saved db'. update_portfolio trim now uid pid body db = (Inr saved, db') \<longrightarrow>
            isDefault saved =
              (if truthy_value (body_isDefault body)
               then castBoolean (body_isDefault body) = Some True else isDefault p)
            \<and> findOne db' pid uid = Some saved)
       \<and> (body_isDefault body = Undefined \<or> (\<exists>b. body_isDefault body = Boolean b) \<longrightarrow>
            (\<forall>saved db'. update_portfolio trim now uid pid body db = (Inr saved, db') \<longrightarrow>
               isDefault saved = (truthy_value (body_isDefault body) \<or> isDefault p))
            \<and> (isDefault p \<longrightarrow>
                 (\<exists>q. findOne (snd (update_portfolio trim now uid pid body db)) pid uid = Some q
                      \<and> isDefault q)))"
proof -
  from assms have ids: "portfolio_id p = pid" "user p = uid"
    by (simp_all add: findOne_Some_D)
  note lots = hydrate_loaded [OF assms]
  define db1 where "db1 =
    (if truthy_value (body_isDefault body) \<and> \<not> isDefault p then
       updateMany (\<lambda>q. user q = uid \<and> isDefault q \<and> portfolio_id q \<noteq> portfolio_id p)
         (\<lambda>q. q\<lparr>isDefault := False\<rparr>) db
     else db)"
  define cast where "cast =
    (if truthy_value (body_isDefault body) then castBoolean (body_isDefault body)
     else Some (isDefault p))"
  define changed where "changed = (\<lambda>flag.
    p\<lparr> portfolio_name := trim (body_name body),
       description := map_option trim (body_description body),
       isDefault := flag \<rparr>)"
  have route: "update_portfolio trim now uid pid body db =
     (if body_name body = [] then (Inl BadRequest, db)
      else case cast of
        None \<Rightarrow> (Inl ServerError, db1)
      | Some flag \<Rightarrow>
          if \<not> name_valid trim (body_name body) then (Inl ServerError, db1)
          else (Inr (pre_save now (changed flag)), snd (save now (changed flag) db1)))"
    using assms unfolding db1_def cast_def changed_def
    by (simp add: update_portfolio_def Let_def fst_save split: option.splits)
  have found1: "findOne db1 pid uid = Some p"
    unfolding db1_def using findOne_updateMany_other [OF assms, of uid] assms ids by simp
  have stored: "findOne (snd (save now (changed flag) db1)) pid uid
                  = Some (pre_save now (changed flag))" for flag
  proof -
    have "hydrate (pre_save now (changed flag)) = pre_save now (changed flag)"
      by (rule hydrate_fixed) (use lots in \<open>simp add: changed_def pre_save_def\<close>)
    then show ?thesis
      using findOne_save [OF found1, of "changed flag" now] ids by (simp add: changed_def)
  qed
  have first: "isDefault saved =
              (if truthy_value (body_isDefault body)
               then castBoolean (body_isDefault body) = Some True else isDefault p)
            \<and> findOne db' pid uid = Some saved"
    if ok: "update_portfolio trim now uid pid body db = (Inr saved, db')" for saved db'
  proof -
    from ok obtain flag where flag: "cast = Some flag"
      and saved: "saved = pre_save now (changed flag)"
      and db': "db' = snd (save now (changed flag) db1)"
      unfolding route by (auto split: if_splits option.splits)
    have "isDefault saved = flag"
      by (simp add: saved changed_def)
    moreover have "flag = (if truthy_value (body_isDefault body)
               then castBoolean (body_isDefault body) = Some True else isDefault p)"
      using flag by (auto simp: cast_def split: if_splits)
    ultimately show ?thesis
      using stored [of flag] by (simp add: saved db')
  qed
  have second: "(\<forall>saved db'. update_portfolio trim now uid pid body db = (Inr saved, db') \<longrightarrow>
               isDefault saved = (truthy_value (body_isDefault body) \<or> isDefault p))
            \<and> (isDefault p \<longrightarrow>
                 (\<exists>q. findOne (snd (update_portfolio trim now uid pid body db)) pid uid = Some q
                      \<and> isDefault q))"
    if plain: "body_isDefault body = Undefined \<or> (\<exists>b. body_isDefault body = Boolean b)"
  proof -
    from plain have cast: "cast = Some (truthy_value (body_isDefault body) \<or> isDefault p)"
      by (auto simp: cast_def)
    have or: "isDefault saved = (truthy_value (body_isDefault body) \<or> isDefault p)"
      if "update_portfolio trim now uid pid body db = (Inr saved, db')" for saved db'
      using first [OF that] plain by auto
    have kept: "\<exists>q. findOne (snd (update_portfolio trim now uid pid body db)) pid uid = Some q
                      \<and> isDefault q" if dflt: "isDefault p"
    proof (cases "body_name body = [] \<or> \<not> name_valid trim (body_name body)")
      case True
      with dflt have "snd (update_portfolio trim now uid pid body db) = db"
        unfolding route cast by (auto simp: db1_def)
      with assms dflt show ?thesis by simp
    next
      case False
      with dflt have "snd (update_portfolio trim now uid pid body db)
                        = snd (save now (changed True) db1)"
        unfolding route cast by auto
      then show ?thesis
        using stored [of True] by (simp add: changed_def)
    qed
    from or kept show ?thesis by blast
  qed
  from first second show ?thesis by blast
qed

lemma trim_Growth: "trim_ascii ''Growth'' = ''Growth''"
  by (simp add: trim_ascii_def is_space_def)

lemma found_default_portfolio: "findOne [default_portfolio] 7 3 = Some default_portfolio"
  by (simp add: findOne_def default_portfolio_def portfolio_of_def hydrate_def)

lemma update_default_portfolio:
  "update_portfolio trim_ascii 5 3 7 rename_body [default_portfolio] =
     (Inr (pre_save 5 (default_portfolio\<lparr>portfolio_name := ''Growth''\<rparr>)),
      [pre_save 5 (default_portfolio\<lparr>portfolio_name := ''Growth''\<rparr>)])"
proof -
  have valid: "name_valid trim_ascii ''Growth''"
    by (simp add: name_valid_def trim_Growth)
  have same: "default_portfolio\<lparr>portfolio_name := ''Growth'', description := None,
                 isDefault := True\<rparr> = default_portfolio\<lparr>portfolio_name := ''Growth''\<rparr>"
    by (simp add: default_portfolio_def portfolio_of_def)
  show ?thesis
    by (simp add: update_portfolio_def rename_body_def found_default_portfolio valid
        trim_Growth same save_def Let_def)
      (simp add: default_portfolio_def portfolio_of_def)
qed

lemma update_false_string:
  "update_portfolio trim_ascii 5 3 7 false_string_body [default_portfolio] =
     (Inr (pre_save 5 (default_portfolio\<lparr>portfolio_name := ''Growth'', isDefault := False\<rparr>)),
      [pre_save 5 (default_portfolio\<lparr>portfolio_name := ''Growth'', isDefault := False\<rparr>)])"
proof -
  have valid: "name_valid trim_ascii ''Growth''"
    by (simp add: name_valid_def trim_Growth)
  have same: "default_portfolio\<lparr>portfolio_name := ''Growth'', description := None,
                 isDefault := False\<rparr>
              = default_portfolio\<lparr>portfolio_name := ''Growth'', isDefault := False\<rparr>"
    by (simp add: default_portfolio_def portfolio_of_def)
  show ?thesis
    by (simp add: update_portfolio_def false_string_body_def found_default_portfolio valid
        trim_Growth same save_def Let_def)
      (simp add: default_portfolio_def portfolio_of_def)
qed

text \<open>
  C9 as stated fails when \<open>isDefault\<close> arrives as the string "false": the string is
  truthy, so it is what the route assigns, and the Boolean path casts it to \<open>false\<close>.
  The update of a default portfolio succeeds and clears the flag.
\<close>

theorem C9_false_string_counterexample:
  "findOne [default_portfolio] 7 3 = Some default_portfolio
   \<and> isDefault default_portfolio
   \<and> body_isDefault false_string_body = String ''false''
   \<and> truthy_value (String ''false'')
   \<and> castBoolean (String ''false'') = Some False
   \<and> update_portfolio trim_ascii 5 3 7 false_string_body [default_portfolio] =
       (Inr (pre_save 5 (default_portfolio\<lparr>portfolio_name := ''Growth'', isDefault := False\<rparr>)),
        [pre_save 5 (default_portfolio\<lparr>portfolio_name := ''Growth'', isDefault := False\<rparr>)])
   \<and> \<not> isDefault (pre_save 5 (default_portfolio\<lparr>portfolio_name := ''Growth'',
                                                  isDefault := False\<rparr>))"
  by (simp add: found_default_portfolio update_false_string)
    (simp add: default_portfolio_def false_string_body_def)

theorem C9_update_keeps_default_witness:
  "findOne [default_portfolio] 7 3 = Some default_portfolio
   \<and> isDefault default_portfolio
   \<and> body_isDefault rename_body = Boolean False
   \<and> update_portfolio trim_ascii 5 3 7 rename_body [default_portfolio] =
       (Inr (pre_save 5 (default_portfolio\<lparr>portfolio_name := ''Growth''\<rparr>)),
        [pre_save 5 (default_portfolio\<lparr>portfolio_name := ''Growth''\<rparr>)])
   \<and> isDefault (pre_save 5 (default_portfolio\<lparr>portfolio_name := ''Growth''\<rparr>))
   \<and> findOne [pre_save 5 (default_portfolio\<lparr>portfolio_name := ''Growth''\<rparr>)] 7 3 =
       Some (pre_save 5 (default_portfolio\<lparr>portfolio_name := ''Growth''\<rparr>))"
proof -
  have dflt: "isDefault default_portfolio"
    by (simp add: default_portfolio_def)
  have req: "body_isDefault rename_body = Boolean False"
    by (simp add: rename_body_def)
  show ?thesis
    using C9_update_keeps_default [OF found_default_portfolio, of trim_ascii 5 rename_body]
      found_default_portfolio dflt req
    by (simp add: update_default_portfolio)
qed

section \<open>Investment update: zero and absent fields\<close>























section \<open>The stored totals\<close>

text \<open>
  Whatever the requests made, the totals of every stored portfolio are those of its lots:
  every write of a document that touches the lots goes through the save hook.
\<close>

lemma totals_consistent_pre_save: "totals_consistent (pre_save now d)"
  by (simp add: totals_consistent_def pre_save_totalCost pre_save_totalValue
      pre_save_investments)

lemma totals_consistent_hydrate: "totals_consistent (hydrate p) = totals_consistent p"
  by (simp add: totals_consistent_def o_def)

lemma totals_consistent_flag: "totals_consistent (p\<lparr>isDefault := b\<rparr>) = totals_consistent p"
  by (simp add: totals_consistent_def)

lemma consistent_save:
  assumes "\<forall>p \<in> set db. totals_consistent p"
  shows "\<forall>p \<in> set (snd (save now d db)). totals_consistent p"
  using assms by (auto simp: save_def Let_def totals_consistent_pre_save)

lemma consistent_updateMany:
  assumes "\<forall>p \<in> set db. totals_consistent p"
  shows "\<forall>p \<in> set (updateMany query (\<lambda>p. p\<lparr>isDefault := False\<rparr>) db). totals_consistent p"
  using assms by (auto simp: updateMany_def totals_consistent_flag)

lemma consistent_create:
  assumes "\<forall>p \<in> set db. totals_consistent p"
  shows "\<forall>p \<in> set (snd (create_portfolio trim now uid body db)). totals_consistent p"
proof -
  have clear: "\<forall>p \<in> set (create_clear now e db). totals_consistent p" for e
    using assms consistent_save [OF assms]
    by (cases e) (simp_all add: create_clear_def)
  have insert: "\<forall>p \<in> set (snd (create_insert trim now uid body db1)). totals_consistent p"
    if "\<forall>p \<in> set db1. totals_consistent p" for db1
    using that consistent_save [OF that]
    by (simp add: create_insert_def Let_def split: option.splits)
  show ?thesis
  proof (cases "body_name body = []")
    case True
    with assms show ?thesis by (simp add: create_portfolio_def)
  next
    case False
    with insert [OF clear] show ?thesis by (simp add: create_portfolio_def)
  qed
qed

lemma consistent_update:
  assumes "\<forall>p \<in> set db. totals_consistent p"
  shows "\<forall>p \<in> set (snd (update_portfolio trim now uid pid body db)). totals_consistent p"
proof (cases "findOne db pid uid")
  case None
  with assms show ?thesis by (simp add: update_portfolio_def)
next
  case (Some p)
  define db1 where "db1 =
    (if truthy_value (body_isDefault body) \<and> \<not> isDefault p then
       updateMany (\<lambda>q. user q = uid \<and> isDefault q \<and> portfolio_id q \<noteq> portfolio_id p)
         (\<lambda>q. q\<lparr>isDefault := False\<rparr>) db
     else db)"
  have one: "\<forall>p \<in> set db1. totals_consistent p"
    unfolding db1_def using assms consistent_updateMany [OF assms] by simp
  have "snd (update_portfolio trim now uid pid body db) = db
        \<or> snd (update_portfolio trim now uid pid body db) = db1
        \<or> (\<exists>d. snd (update_portfolio trim now uid pid body db) = snd (save now d db1))"
    using Some unfolding db1_def
    by (auto simp: update_portfolio_def Let_def split: option.splits)
  with assms one consistent_save [OF one] show ?thesis
    by auto
qed

lemma consistent_delete:
  assumes "\<forall>p \<in> set db. totals_consistent p"
  shows "\<forall>p \<in> set (snd (delete_portfolio uid pid db)). totals_consistent p"
  using assms by (simp add: delete_portfolio_def split: option.splits)

lemma consistent_add_investment:
  assumes "\<forall>p \<in> set db. totals_consistent p"
  shows "\<forall>p \<in> set (snd (add_investment trim toUpperCase q now uid pid body db)).
           totals_consistent p"
  using assms consistent_save [OF assms]
  by (simp add: add_investment_def Let_def split: option.splits)

lemma consistent_update_investment:
  assumes "\<forall>p \<in> set db. totals_consistent p"
  shows "\<forall>p \<in> set (snd (update_investment trim q now uid pid investmentId body db)).
           totals_consistent p"
  using assms consistent_save [OF assms]
  by (simp add: update_investment_def Let_def split: option.splits)

lemma consistent_delete_investment:
  assumes "\<forall>p \<in> set db. totals_consistent p"
  shows "\<forall>p \<in> set (snd (delete_investment now uid pid investmentId db)). totals_consistent p"
  using assms consistent_save [OF assms]
  by (simp add: delete_investment_def Let_def split: option.splits)

lemma consistent_refresh:
  assumes "\<forall>p \<in> set db. totals_consistent p"
  shows "\<forall>p \<in> set (fst (snd (refresh q now uid pid db))). totals_consistent p"
  using assms consistent_save [OF assms]
  by (simp add: refresh_def Let_def split: option.splits)

lemma consistent_perform:
  assumes "\<forall>p \<in> set db. totals_consistent p"
  shows "\<forall>p \<in> set (perform trim toUpperCase op db). totals_consistent p"
proof (cases op)
  case (CreatePortfolio now uid body)
  then show ?thesis using consistent_create [OF assms] by simp
next
  case (UpdatePortfolio now uid pid body)
  then show ?thesis using consistent_update [OF assms] by simp
next
  case (DeletePortfolio uid pid)
  then show ?thesis using consistent_delete [OF assms] by simp
next
  case (AddInvestment q now uid pid body)
  then show ?thesis using consistent_add_investment [OF assms] by simp
next
  case (UpdateInvestment q now uid pid investmentId body)
  then show ?thesis using consistent_update_investment [OF assms] by simp
next
  case (DeleteInvestment now uid pid investmentId)
  then show ?thesis using consistent_delete_investment [OF assms] by simp
next
  case (RefreshPrices q now uid pid)
  then show ?thesis using consistent_refresh [OF assms] by simp
qed

lemma consistent_fold:
  "\<forall>p \<in> set db. totals_consistent p \<Longrightarrow>
   \<forall>p \<in> set (fold (perform trim toUpperCase) ops db). totals_consistent p"
proof (induction ops arbitrary: db)
  case Nil
  then show ?case by simp
next
  case (Cons op ops)
  from Cons.IH [OF consistent_perform [OF Cons.prems]] show ?case by simp
qed

lemma consistent_loaded:
  assumes "findOne (fold (perform trim toUpperCase) ops []) pid uid = Some p"
  shows "totals_consistent p"
proof -
  have "\<forall>p \<in> set (fold (perform trim toUpperCase) ops []). totals_consistent p"
    by (rule consistent_fold) simp
  with findOne_Some_D(1) [OF assms] show ?thesis
    by (auto simp: totals_consistent_hydrate)
qed

section \<open>Price refresh\<close>

lemma set_spread_distinct: "distinct (set_spread xs)"
  by (simp add: set_spread_def)

lemma set_spread_set: "set (set_spread xs) = set xs"
  by (simp add: set_spread_def)

lemma foldl_quotes:
  "fst (foldl (\<lambda>(quotes, requested) symbol.
            case yahoo_quote symbol of
              QuoteError \<Rightarrow> (quotes, requested @ [symbol])
            | Quote price \<Rightarrow> (quotes(symbol \<mapsto> price), requested @ [symbol]))
          (m, req) symbols) s =
     (if s \<in> set symbols
      then (case yahoo_quote s of QuoteError \<Rightarrow> m s | Quote price \<Rightarrow> Some price)
      else m s)"
  by (induction symbols arbitrary: m req) (auto split: quote_outcome.splits)

lemma foldl_requested:
  "snd (foldl (\<lambda>(quotes, requested) symbol.
            case yahoo_quote symbol of
              QuoteError \<Rightarrow> (quotes, requested @ [symbol])
            | Quote price \<Rightarrow> (quotes(symbol \<mapsto> price), requested @ [symbol]))
          (m, req) symbols) = req @ symbols"
  by (induction symbols arbitrary: m req) (auto split: quote_outcome.splits)

lemma fetch_quotes_lookup:
  "fst (fetch_quotes yahoo_quote symbols) s =
     (if s \<in> set symbols
      then (case yahoo_quote s of QuoteError \<Rightarrow> None | Quote price \<Rightarrow> Some price)
      else None)"
  by (simp add: fetch_quotes_def foldl_quotes)

lemma fetch_quotes_requested: "snd (fetch_quotes yahoo_quote symbols) = symbols"
  by (simp add: fetch_quotes_def foldl_requested)

lemma apply_quote_fetched:
  assumes "symbol lot \<in> set symbols"
  shows "apply_quote (fst (fetch_quotes yahoo_quote symbols)) now lot =
     (case yahoo_quote (symbol lot) of
        QuoteError \<Rightarrow> lot
      | Quote None \<Rightarrow> lot
      | Quote (Some price) \<Rightarrow>
          if price = 0 then lot else lot\<lparr>currentPrice := Some price, lastUpdated := now\<rparr>)"
  using assms
  by (simp add: apply_quote_def fetch_quotes_lookup split: quote_outcome.splits option.splits)

lemma refresh_lots:
  "map (apply_quote (fst (fetch_quotes yahoo_quote (set_spread (map symbol lots)))) now) lots =
   map (\<lambda>lot. case yahoo_quote (symbol lot) of
                 QuoteError \<Rightarrow> lot
               | Quote None \<Rightarrow> lot
               | Quote (Some price) \<Rightarrow>
                   if price = 0 then lot
                   else lot\<lparr>currentPrice := Some price, lastUpdated := now\<rparr>) lots"
  by (rule map_cong) (simp_all add: apply_quote_fetched set_spread_set)

lemma refresh_lots_positive:
  assumes "\<forall>s price. yahoo_quote s = Quote price \<longrightarrow> (\<exists>v. price = Some v \<and> 0 < v)"
  shows
  "map (apply_quote (fst (fetch_quotes yahoo_quote (set_spread (map symbol lots)))) now) lots =
   map (\<lambda>lot. case yahoo_quote (symbol lot) of
                 QuoteError \<Rightarrow> lot
               | Quote price \<Rightarrow> lot\<lparr>currentPrice := price, lastUpdated := now\<rparr>) lots"
  unfolding refresh_lots
proof (rule map_cong [OF refl])
  fix lot
  show "(case yahoo_quote (symbol lot) of
           QuoteError \<Rightarrow> lot
         | Quote None \<Rightarrow> lot
         | Quote (Some price) \<Rightarrow>
             if price = 0 then lot
             else lot\<lparr>currentPrice := Some price, lastUpdated := now\<rparr>) =
        (case yahoo_quote (symbol lot) of
           QuoteError \<Rightarrow> lot
         | Quote price \<Rightarrow> lot\<lparr>currentPrice := price, lastUpdated := now\<rparr>)"
  proof (cases "yahoo_quote (symbol lot)")
    case QuoteError
    then show ?thesis by simp
  next
    case (Quote price)
    with assms obtain v where "price = Some v" "0 < v"
      by blast
    with Quote show ?thesis by simp
  qed
qed

lemma refresh_found:
  assumes "findOne db pid uid = Some p"
  shows "refresh yahoo_quote now uid pid db =
     (if investments p = [] then (Inr p, db, [])
      else (Inr (pre_save now (p\<lparr>investments :=
                  map (apply_quote (fst (fetch_quotes yahoo_quote
                         (set_spread (map symbol (investments p))))) now) (investments p)\<rparr>)),
            snd (save now (p\<lparr>investments :=
                  map (apply_quote (fst (fetch_quotes yahoo_quote
                         (set_spread (map symbol (investments p))))) now) (investments p)\<rparr>) db),
            set_spread (map symbol (investments p))))"
  using assms by (simp add: refresh_def Let_def fst_save fetch_quotes_requested)

lemma apply_quote_priced:
  "currentPrice lot \<noteq> None \<Longrightarrow> currentPrice (apply_quote quotes now lot) \<noteq> None"
  by (simp add: apply_quote_def split: option.splits)

text \<open>
  C6. Let the collection be one the routes have produced, and let every quote that
  succeeds carry a positive price. The refresh fails only when the portfolio is not found.
  Otherwise it succeeds, whatever quotes fail: the symbols it asks the quote source for
  are the symbols of the lots, each exactly once; each lot whose symbol's quote fails is
  returned unchanged, and each lot whose symbol's quote succeeds has the quoted price and
  the new \<open>lastUpdated\<close>; the totals returned are those of the returned lots,
  \<open>totalValue\<close> with \<open>currentPrice\<close> when present and not zero and \<open>purchasePrice\<close>
  otherwise; and the returned document is the one stored.
\<close>

theorem C6_refresh_per_symbol:
  assumes "\<forall>s price. yahoo_quote s = Quote price \<longrightarrow> (\<exists>v. price = Some v \<and> 0 < v)"
    and "db = fold (perform trim toUpperCase) ops []"
  shows "(findOne db pid uid = None \<longrightarrow>
            refresh yahoo_quote now uid pid db = (Inl NotFound, db, []))
   \<and> (\<forall>p. findOne db pid uid = Some p \<longrightarrow>
        (\<exists>saved db' requested.
           refresh yahoo_quote now uid pid db = (Inr saved, db', requested)
           \<and> distinct requested
           \<and> set requested = symbol ` set (investments p)
           \<and> investments saved =
               map (\<lambda>lot. case yahoo_quote (symbol lot) of
                             QuoteError \<Rightarrow> lot
                           | Quote price \<Rightarrow> lot\<lparr>currentPrice := price, lastUpdated := now\<rparr>)
                 (investments p)
           \<and> totalCost saved = (\<Sum>lot\<leftarrow>investments saved. purchasePrice lot * shares lot)
           \<and> totalValue saved =
               (\<Sum>lot\<leftarrow>investments saved.
                  (case currentPrice lot of
                     None \<Rightarrow> purchasePrice lot
                   | Some c \<Rightarrow> if c = 0 then purchasePrice lot else c) * shares lot)
           \<and> findOne db' pid uid = Some saved))"
proof -
  have effective: "(case currentPrice lot of
                     None \<Rightarrow> purchasePrice lot
                   | Some c \<Rightarrow> if c = 0 then purchasePrice lot else c) = effectivePrice lot"
    for lot
    by (simp add: effectivePrice_def)
  have missing: "refresh yahoo_quote now uid pid db = (Inl NotFound, db, [])"
    if "findOne db pid uid = None"
    using that by (simp add: refresh_def)
  have loaded: "\<exists>saved db' requested.
           refresh yahoo_quote now uid pid db = (Inr saved, db', requested)
           \<and> distinct requested
           \<and> set requested = symbol ` set (investments p)
           \<and> investments saved =
               map (\<lambda>lot. case yahoo_quote (symbol lot) of
                             QuoteError \<Rightarrow> lot
                           | Quote price \<Rightarrow> lot\<lparr>currentPrice := price, lastUpdated := now\<rparr>)
                 (investments p)
           \<and> totalCost saved = (\<Sum>lot\<leftarrow>investments saved. purchasePrice lot * shares lot)
           \<and> totalValue saved = (\<Sum>lot\<leftarrow>investments saved. effectivePrice lot * shares lot)
           \<and> findOne db' pid uid = Some saved"
    if found: "findOne db pid uid = Some p" for p
  proof (cases "investments p = []")
    case True
    from found have "totals_consistent p"
      unfolding assms(2) by (rule consistent_loaded)
    with True found show ?thesis
      by (simp add: refresh_found totals_consistent_def)
  next
    case False
    let ?changed = "p\<lparr>investments :=
                  map (apply_quote (fst (fetch_quotes yahoo_quote
                         (set_spread (map symbol (investments p))))) now) (investments p)\<rparr>"
    from found have ids: "portfolio_id ?changed = pid" "user ?changed = uid"
      by (simp_all add: findOne_Some_D)
    have r: "refresh yahoo_quote now uid pid db =
               (Inr (pre_save now ?changed), snd (save now ?changed db),
                set_spread (map symbol (investments p)))"
      using found False by (simp add: refresh_found)
    have lots: "investments (pre_save now ?changed) =
               map (\<lambda>lot. case yahoo_quote (symbol lot) of
                             QuoteError \<Rightarrow> lot
                           | Quote price \<Rightarrow> lot\<lparr>currentPrice := price, lastUpdated := now\<rparr>)
                 (investments p)"
      by (simp add: pre_save_investments refresh_lots_positive [OF assms(1)])
    have "\<forall>lot \<in> set (investments (pre_save now ?changed)). currentPrice lot \<noteq> None"
      using hydrate_loaded [OF found] apply_quote_priced
      by (auto simp: pre_save_investments)
    then have "hydrate (pre_save now ?changed) = pre_save now ?changed"
      by (rule hydrate_fixed)
    then have stored: "findOne (snd (save now ?changed db)) pid uid
                         = Some (pre_save now ?changed)"
      using findOne_save [OF found ids, of now] by simp
    show ?thesis
      unfolding r
      using lots stored pre_save_totalCost [of now ?changed] pre_save_totalValue [of now ?changed]
      by (simp add: pre_save_investments set_spread_distinct set_spread_set)
  qed
  from missing loaded show ?thesis
    unfolding effective by blast
qed

lemma names_valid:
  "name_valid trim_ascii ''Core''" "name_valid trim_ascii ''Growth''"
  "name_valid trim_ascii ''Income''"
  by (simp_all add: name_valid_def trim_ascii_def is_space_def)

lemma names_trimmed:
  "trim_ascii ''Core'' = ''Core''" "trim_ascii ''Income'' = ''Income''"
  "trim_ascii ''A'' = ''A''" "trim_ascii ''B'' = ''B''" "trim_ascii ''B again'' = ''B again''"
  by (simp_all add: trim_ascii_def is_space_def)

lemma symbols_upper:
  "toUpperCase_ascii ''A'' = ''A''" "toUpperCase_ascii ''b'' = ''B''"
  "toUpperCase_ascii ''B'' = ''B''"
  by code_simp+

lemma create_core:
  "create_portfolio trim_ascii 10 3 core_body [] =
     (Inr (holdings [] 10 0 0), [holdings [] 10 0 0])"
  by (simp add: create_portfolio_def create_find_def create_clear_def create_insert_def
      core_body_def names_valid names_trimmed save_def pre_save_def new_ObjectId_def Let_def
      holdings_def)

lemma findOne_holdings:
  "findOne [holdings lots updated cost val] (Suc 0) 3 =
     Some (holdings (map applyDefaults lots) updated cost val)"
  by (simp add: findOne_def holdings_def hydrate_def)

lemma save_holdings:
  "save now ((holdings lots updated cost val)\<lparr>investments := lots'\<rparr>)
     [holdings lots0 updated0 cost0 val0] =
     (holdings lots' now (\<Sum>lot\<leftarrow>lots'. purchasePrice lot * shares lot)
        (\<Sum>lot\<leftarrow>lots'. effectivePrice lot * shares lot),
      [holdings lots' now (\<Sum>lot\<leftarrow>lots'. purchasePrice lot * shares lot)
        (\<Sum>lot\<leftarrow>lots'. effectivePrice lot * shares lot)])"
  by (simp add: save_def Let_def holdings_def pre_save_def foldl_plus_sum_list)

lemma pre_save_holdings:
  "pre_save now ((holdings lots updated cost val)\<lparr>investments := lots'\<rparr>) =
     holdings lots' now (\<Sum>lot\<leftarrow>lots'. purchasePrice lot * shares lot)
        (\<Sum>lot\<leftarrow>lots'. effectivePrice lot * shares lot)"
  by (simp add: holdings_def pre_save_def foldl_plus_sum_list)

lemma parseFloat_50: "parseFloat (String ''50'') = Some 50"
  by (simp add: isNumeric_string_def unsigned_def is_digit_def decimal_value_def digits_value_def)

lemma numeric_50: "required_numeric (String ''50'')"
  by (simp add: required_numeric_def isNumeric_string_def unsigned_def is_digit_def)

lemma symbols_held:
  "symbol held_A = ''A''" "symbol held_B = ''B''" "symbol held_B2 = ''B''"
  by (simp_all add: held_A_def held_B_def held_B2_def)

lemma add_A:
  "add_investment trim_ascii toUpperCase_ascii no_quotes 21 3 (Suc 0) add_A_body
     [holdings [] 10 0 0] =
     (Inr (holdings [held_A] 21 1000 1000), [holdings [held_A] 21 1000 1000])"
proof -
  have lot: "\<lparr> inv_id = Suc 0, symbol = ''A'', name = Some ''A'', shares = 100,
      purchasePrice = 10, purchaseDate = 21, sector = None, investment_notes = None,
      currentPrice = Some 10, lastUpdated = 21 \<rparr> = held_A"
    by (simp add: held_A_def)
  have totals: "effectivePrice held_A = 10" "purchasePrice held_A = 10" "shares held_A = 100"
    by (simp_all add: held_A_def effectivePrice_def)
  have id: "new_investment_id [holdings [] 10 0 0] = Suc 0"
    by (simp add: new_investment_id_def holdings_def)
  have sent: "body_symbol add_A_body = ''A''" "body_shares add_A_body = Number 100"
    "body_purchasePrice add_A_body = Number 10" "body_purchaseDate add_A_body = None"
    "body_sector add_A_body = None" "body_notes add_A_body = None"
    "body_investment_name add_A_body = None"
    by (simp_all add: add_A_body_def)
  have lots: "investments (holdings [] 10 0 0) = []"
    by (simp add: holdings_def)
  show ?thesis
    by (simp add: add_investment_def sent required_numeric_def findOne_holdings id lots
        names_trimmed symbols_upper symbols_held no_quotes_def lot save_holdings totals Let_def)
qed

lemma add_b:
  "add_investment trim_ascii toUpperCase_ascii no_quotes 22 3 (Suc 0) add_b_body
     [holdings [held_A] 21 1000 1000] =
     (Inr (holdings [held_A, held_B] 22 2000 2000), [holdings [held_A, held_B] 22 2000 2000])"
proof -
  have lot: "\<lparr> inv_id = 2, symbol = ''B'', name = Some ''B'', shares = 50,
      purchasePrice = 20, purchaseDate = 22, sector = None, investment_notes = None,
      currentPrice = Some 20, lastUpdated = 22 \<rparr> = held_B"
    by (simp add: held_B_def)
  have totals: "effectivePrice held_A = 10" "purchasePrice held_A = 10" "shares held_A = 100"
    "effectivePrice held_B = 20" "purchasePrice held_B = 20" "shares held_B = 50"
    by (simp_all add: held_A_def held_B_def effectivePrice_def)
  have id: "new_investment_id [holdings [held_A] 21 1000 1000] = 2"
    by (simp add: new_investment_id_def holdings_def held_A_def)
  have sent: "body_symbol add_b_body = ''b''" "body_shares add_b_body = String ''50''"
    "body_purchasePrice add_b_body = Number 20" "body_purchaseDate add_b_body = None"
    "body_sector add_b_body = None" "body_notes add_b_body = None"
    "body_investment_name add_b_body = None"
    by (simp_all add: add_b_body_def)
  have lots: "investments (holdings [held_A] 21 1000 1000) = [held_A]"
    by (simp add: holdings_def)
  have price: "parseFloat (Number 20) = Some 20"
    by simp
  show ?thesis
    using parseFloat_50 numeric_50 price
    by (simp add: add_investment_def sent required_numeric_def findOne_holdings id lots
        names_trimmed symbols_upper symbols_held no_quotes_def lot save_holdings totals Let_def
        del: parseFloat.simps)
qed

lemma add_b2:
  "add_investment trim_ascii toUpperCase_ascii no_quotes 23 3 (Suc 0) add_b2_body
     [holdings [held_A, held_B] 22 2000 2000] =
     (Inr (holdings [held_A, held_B, held_B2] 23 2200 2200),
      [holdings [held_A, held_B, held_B2] 23 2200 2200])"
proof -
  have lot: "\<lparr> inv_id = 3, symbol = ''B'', name = Some ''B again'', shares = 10,
      purchasePrice = 20, purchaseDate = 5, sector = None, investment_notes = None,
      currentPrice = Some 20, lastUpdated = 23 \<rparr> = held_B2"
    by (simp add: held_B2_def)
  have totals: "effectivePrice held_A = 10" "purchasePrice held_A = 10" "shares held_A = 100"
    "effectivePrice held_B = 20" "purchasePrice held_B = 20" "shares held_B = 50"
    "effectivePrice held_B2 = 20" "purchasePrice held_B2 = 20" "shares held_B2 = 10"
    by (simp_all add: held_A_def held_B_def held_B2_def effectivePrice_def)
  have id: "new_investment_id [holdings [held_A, held_B] 22 2000 2000] = 3"
    by (simp add: new_investment_id_def holdings_def held_A_def held_B_def)
  have sent: "body_symbol add_b2_body = ''b''" "body_shares add_b2_body = Number 10"
    "body_purchasePrice add_b2_body = Number 20" "body_purchaseDate add_b2_body = Some 5"
    "body_sector add_b2_body = None" "body_notes add_b2_body = None"
    "body_investment_name add_b2_body = Some ''B again''"
    by (simp_all add: add_b2_body_def)
  have lots: "investments (holdings [held_A, held_B] 22 2000 2000) = [held_A, held_B]"
    by (simp add: holdings_def)
  show ?thesis
    by (simp add: add_investment_def sent required_numeric_def findOne_holdings id lots
        names_trimmed symbols_upper symbols_held no_quotes_def lot save_holdings totals Let_def)
qed

lemma run_three_adds:
  "fold (perform trim_ascii toUpperCase_ascii) three_adds [] =
     [holdings [held_A, held_B, held_B2] 23 2200 2200]"
  by (simp add: three_adds_def create_core add_A add_b add_b2)

lemma refresh_holdings:
  "refresh quote_B_only 30 3 (Suc 0) [holdings [held_A, held_B, held_B2] 23 2200 2200] =
     (Inr (holdings [held_A, held_B\<lparr>currentPrice := Some 14, lastUpdated := 30\<rparr>,
                     held_B2\<lparr>currentPrice := Some 14, lastUpdated := 30\<rparr>] 30 2200 1840),
      [holdings [held_A, held_B\<lparr>currentPrice := Some 14, lastUpdated := 30\<rparr>,
                 held_B2\<lparr>currentPrice := Some 14, lastUpdated := 30\<rparr>] 30 2200 1840],
      [''A'', ''B''])"
proof -
  have lots: "investments (holdings [held_A, held_B, held_B2] 23 2200 2200)
                = [held_A, held_B, held_B2]"
    by (simp add: holdings_def)
  have spread: "set_spread [''A'', ''B'', ''B''] = [''A'', ''B'']"
    by (simp add: set_spread_def)
  have quoted: "apply_quote (fst (fetch_quotes quote_B_only [''A'', ''B''])) 30 held_A = held_A"
    "apply_quote (fst (fetch_quotes quote_B_only [''A'', ''B''])) 30 held_B
       = held_B\<lparr>currentPrice := Some 14, lastUpdated := 30\<rparr>"
    "apply_quote (fst (fetch_quotes quote_B_only [''A'', ''B''])) 30 held_B2
       = held_B2\<lparr>currentPrice := Some 14, lastUpdated := 30\<rparr>"
    by (simp_all add: apply_quote_fetched symbols_held quote_B_only_def)
  show ?thesis
    by (simp add: refresh_found [OF findOne_holdings] lots symbols_held spread quoted
        save_holdings pre_save_holdings)
      (simp add: held_A_def held_B_def held_B2_def effectivePrice_def)
qed

theorem C6_refresh_per_symbol_witness:
  "fold (perform trim_ascii toUpperCase_ascii) three_adds [] =
     [holdings [held_A, held_B, held_B2] 23 2200 2200]
   \<and> findOne [holdings [held_A, held_B, held_B2] 23 2200 2200] (Suc 0) 3 =
       Some (holdings [held_A, held_B, held_B2] 23 2200 2200)
   \<and> quote_B_only (symbol held_A) = QuoteError
   \<and> quote_B_only (symbol held_B) = Quote (Some 14)
   \<and> quote_B_only (symbol held_B2) = Quote (Some 14)
   \<and> refresh quote_B_only 30 3 (Suc 0) [holdings [held_A, held_B, held_B2] 23 2200 2200] =
       (Inr (holdings [held_A, held_B\<lparr>currentPrice := Some 14, lastUpdated := 30\<rparr>,
                       held_B2\<lparr>currentPrice := Some 14, lastUpdated := 30\<rparr>] 30 2200 1840),
        [holdings [held_A, held_B\<lparr>currentPrice := Some 14, lastUpdated := 30\<rparr>,
                   held_B2\<lparr>currentPrice := Some 14, lastUpdated := 30\<rparr>] 30 2200 1840],
        [''A'', ''B''])
   \<and> totalCost (holdings [held_A, held_B\<lparr>currentPrice := Some 14, lastUpdated := 30\<rparr>,
                   held_B2\<lparr>currentPrice := Some 14, lastUpdated := 30\<rparr>] 30 2200 1840) = 2200
   \<and> totalValue (holdings [held_A, held_B\<lparr>currentPrice := Some 14, lastUpdated := 30\<rparr>,
                   held_B2\<lparr>currentPrice := Some 14, lastUpdated := 30\<rparr>] 30 2200 1840) = 1840
   \<and> findOne [holdings [held_A, held_B, held_B2] 23 2200 2200] 8 3 = None
   \<and> refresh quote_B_only 30 3 8 [holdings [held_A, held_B, held_B2] 23 2200 2200] =
       (Inl NotFound, [holdings [held_A, held_B, held_B2] 23 2200 2200], [])"
proof -
  have contract: "\<forall>s price. quote_B_only s = Quote price \<longrightarrow> (\<exists>v. price = Some v \<and> 0 < v)"
    by (simp add: quote_B_only_def)
  have quotes: "quote_B_only (symbol held_A) = QuoteError"
    "quote_B_only (symbol held_B) = Quote (Some 14)"
    "quote_B_only (symbol held_B2) = Quote (Some 14)"
    by (simp_all add: symbols_held quote_B_only_def)
  have missing: "findOne [holdings [held_A, held_B, held_B2] 23 2200 2200] 8 3 = None"
    by (simp add: findOne_def holdings_def)
  have totals:
    "totalCost (holdings [held_A, held_B\<lparr>currentPrice := Some 14, lastUpdated := 30\<rparr>,
                   held_B2\<lparr>currentPrice := Some 14, lastUpdated := 30\<rparr>] 30 2200 1840) = 2200"
    "totalValue (holdings [held_A, held_B\<lparr>currentPrice := Some 14, lastUpdated := 30\<rparr>,
                   held_B2\<lparr>currentPrice := Some 14, lastUpdated := 30\<rparr>] 30 2200 1840) = 1840"
    by (simp_all add: holdings_def)
  show ?thesis
    using C6_refresh_per_symbol [OF contract refl, where trim = trim_ascii
        and toUpperCase = toUpperCase_ascii and ops = three_adds and pid = "Suc 0"
        and uid = 3 and now = 30]
      C6_refresh_per_symbol [OF contract refl, where trim = trim_ascii
        and toUpperCase = toUpperCase_ascii and ops = three_adds and pid = 8
        and uid = 3 and now = 30]
      missing
    by (simp add: run_three_adds findOne_holdings refresh_holdings totals quotes)
qed

section \<open>At most one default portfolio per user\<close>

lemma well_formed_iff:
  "well_formed db \<longleftrightarrow>
     distinct (map portfolio_id db)
     \<and> (\<forall>p \<in> set db. \<forall>q \<in> set db.
           isDefault p \<and> isDefault q \<and> user p = user q \<longrightarrow> portfolio_id p = portfolio_id q)"
proof (cases "distinct (map portfolio_id db)")
  case False
  then show ?thesis by (simp add: well_formed_def)
next
  case True
  then have d: "distinct db" and inj: "inj_on portfolio_id (set db)"
    by (simp_all add: distinct_map)
  have "distinct (map user (filter isDefault db)) \<longleftrightarrow>
          inj_on user (set (filter isDefault db))"
    using d by (simp add: distinct_map)
  also have "\<dots> \<longleftrightarrow> (\<forall>p \<in> set db. \<forall>q \<in> set db.
           isDefault p \<and> isDefault q \<and> user p = user q \<longrightarrow> portfolio_id p = portfolio_id q)"
    using inj by (auto simp: inj_on_def)
  finally show ?thesis
    using True by (simp add: well_formed_def at_most_one_default_def)
qed

lemma length_filter_distinct_map:
  "distinct (map f xs) \<Longrightarrow> length (filter (\<lambda>x. f x = u \<and> P x) xs) \<le> 1"
proof (induction xs)
  case Nil
  then show ?case by simp
next
  case (Cons x xs)
  show ?case
  proof (cases "f x = u")
    case True
    from Cons.prems have "f x \<notin> f ` set xs"
      by simp
    with True have "\<forall>y \<in> set xs. f y \<noteq> u"
      by blast
    then have "filter (\<lambda>x. f x = u \<and> P x) xs = []"
      by (simp add: filter_empty_conv)
    then show ?thesis by simp
  next
    case False
    with Cons show ?thesis by simp
  qed
qed

lemma at_most_one_default_count:
  assumes "at_most_one_default db"
  shows "length (filter (\<lambda>p. user p = u \<and> isDefault p) db) \<le> 1"
proof -
  have "filter (\<lambda>p. user p = u \<and> isDefault p) db
          = filter (\<lambda>p. user p = u \<and> True) (filter isDefault db)"
    by (induction db) auto
  then show ?thesis
    using length_filter_distinct_map [of user "filter isDefault db" u "\<lambda>_. True"] assms
    by (simp add: at_most_one_default_def)
qed

lemma well_formed_save:
  assumes "well_formed db"
    and "isDefault d \<longrightarrow>
           (\<forall>q \<in> set db. isDefault q \<and> user q = user d \<longrightarrow> portfolio_id q = portfolio_id d)"
  shows "well_formed (snd (save now d db))"
proof -
  let ?d = "pre_save now d"
  let ?g = "\<lambda>p. if portfolio_id p = portfolio_id d then ?d else p"
  from assms(1) have ids: "distinct (map portfolio_id db)"
    and pair: "\<And>p q. p \<in> set db \<Longrightarrow> q \<in> set db \<Longrightarrow> isDefault p \<Longrightarrow> isDefault q \<Longrightarrow>
                 user p = user q \<Longrightarrow> portfolio_id p = portfolio_id q"
    unfolding well_formed_iff by blast+
  from assms(2) have new: "\<And>q. isDefault d \<Longrightarrow> q \<in> set db \<Longrightarrow> isDefault q \<Longrightarrow>
                 user q = user d \<Longrightarrow> portfolio_id q = portfolio_id d"
    by blast
  show ?thesis
  proof (cases "portfolio_id d \<in> set (map portfolio_id db)")
    case True
    have same_ids: "map portfolio_id (map ?g db) = map portfolio_id db"
      by (induction db) simp_all
    from True have db': "snd (save now d db) = map ?g db"
      by (simp add: save_def Let_def)
    have "portfolio_id p' = portfolio_id q'"
      if "p' \<in> set (map ?g db)" "q' \<in> set (map ?g db)" "isDefault p'" "isDefault q'"
        "user p' = user q'" for p' q'
    proof -
      from that(1,2) obtain p q where pq: "p \<in> set db" "q \<in> set db" "p' = ?g p" "q' = ?g q"
        by auto
      show ?thesis
      proof (cases "portfolio_id p = portfolio_id d")
        case p: True
        show ?thesis
        proof (cases "portfolio_id q = portfolio_id d")
          case True
          with p pq show ?thesis by simp
        next
          case False
          with p pq that have "isDefault d" "isDefault q" "user q = user d"
            by simp_all
          with new pq(2) False show ?thesis by blast
        qed
      next
        case p: False
        show ?thesis
        proof (cases "portfolio_id q = portfolio_id d")
          case True
          with p pq that have "isDefault d" "isDefault p" "user p = user d"
            by simp_all
          with new pq(1) p show ?thesis by blast
        next
          case False
          with p pq that have "isDefault p" "isDefault q" "user p = user q"
            by simp_all
          from pair [OF pq(1,2) this] p False pq show ?thesis by simp
        qed
      qed
    qed
    then show ?thesis
      unfolding db' well_formed_iff same_ids using ids by blast
  next
    case False
    then have db': "snd (save now d db) = db @ [?d]"
      by (simp add: save_def Let_def)
    have "portfolio_id p' = portfolio_id q'"
      if "p' \<in> set (db @ [?d])" "q' \<in> set (db @ [?d])" "isDefault p'" "isDefault q'"
        "user p' = user q'" for p' q'
    proof (cases "p' = ?d")
      case p: True
      show ?thesis
      proof (cases "q' = ?d")
        case True
        with p show ?thesis by simp
      next
        case False
        with that(2) have qin: "q' \<in> set db" by simp
        from p that have "isDefault d" "user q' = user d" by simp_all
        from new [OF this(1) qin that(4) this(2)] p show ?thesis by simp
      qed
    next
      case p: False
      with that(1) have pin: "p' \<in> set db" by simp
      show ?thesis
      proof (cases "q' = ?d")
        case True
        with that have "isDefault d" "user p' = user d" by simp_all
        from new [OF this(1) pin that(3) this(2)] True show ?thesis by simp
      next
        case False
        with that(2) have "q' \<in> set db" by simp
        from pair [OF pin this that(3,4,5)] show ?thesis .
      qed
    qed
    moreover have "distinct (map portfolio_id (db @ [?d]))"
      using ids False by simp
    ultimately show ?thesis
      unfolding db' well_formed_iff by blast
  qed
qed

lemma well_formed_pair:
  assumes "well_formed db" "p \<in> set db" "q \<in> set db" "isDefault p" "isDefault q"
    "user p = user q"
  shows "portfolio_id p = portfolio_id q"
  using assms unfolding well_formed_iff by blast

lemma well_formed_save_same:
  assumes "well_formed db" and "p \<in> set db"
    and "portfolio_id d = portfolio_id p" and "user d = user p" and "isDefault d = isDefault p"
  shows "well_formed (snd (save now d db))"
proof (rule well_formed_save [OF assms(1)], intro impI ballI)
  fix q
  assume "isDefault d" "q \<in> set db" "isDefault q \<and> user q = user d"
  with assms show "portfolio_id q = portfolio_id d"
    using well_formed_pair [OF assms(1), of q p] by simp
qed

lemma well_formed_updateMany:
  assumes "well_formed db"
  shows "well_formed (updateMany query (\<lambda>p. p\<lparr>isDefault := False\<rparr>) db)"
proof -
  let ?g = "\<lambda>p. if query p then p\<lparr>isDefault := False\<rparr> else p"
  have ids: "map portfolio_id (map ?g db) = map portfolio_id db"
    by (induction db) simp_all
  have "portfolio_id p' = portfolio_id q'"
    if "p' \<in> set (map ?g db)" "q' \<in> set (map ?g db)" "isDefault p'" "isDefault q'"
      "user p' = user q'" for p' q'
  proof -
    from that(1,2) obtain p q where pq: "p \<in> set db" "q \<in> set db" "p' = ?g p" "q' = ?g q"
      by auto
    have "p' = p"
    proof (cases "query p")
      case True
      with pq(3) that(3) show ?thesis by simp
    next
      case False
      with pq(3) show ?thesis by simp
    qed
    moreover have "q' = q"
    proof (cases "query q")
      case True
      with pq(4) that(4) show ?thesis by simp
    next
      case False
      with pq(4) show ?thesis by simp
    qed
    ultimately have "isDefault p" "isDefault q" "user p = user q" "p' = p" "q' = q"
      using that by simp_all
    with well_formed_pair [OF assms pq(1,2)] show ?thesis
      by blast
  qed
  then show ?thesis
    unfolding updateMany_def well_formed_iff ids
    using assms unfolding well_formed_iff by blast
qed

lemma well_formed_filter:
  assumes "well_formed db"
  shows "well_formed (filter keep db)"
proof -
  have "distinct (map portfolio_id (filter keep db))"
    using assms by (simp add: well_formed_def distinct_map_filter)
  moreover have "portfolio_id p = portfolio_id q"
    if "p \<in> set (filter keep db)" "q \<in> set (filter keep db)" "isDefault p" "isDefault q"
      "user p = user q" for p q
  proof -
    from that have "p \<in> set db" "q \<in> set db" by simp_all
    from well_formed_pair [OF assms this that(3,4,5)] show ?thesis .
  qed
  ultimately show ?thesis
    unfolding well_formed_iff by blast
qed

lemma new_ObjectId_fresh: "p \<in> set db \<Longrightarrow> portfolio_id p < new_ObjectId db"
  by (induction db) (auto simp: new_ObjectId_def)

lemma well_formed_save_loaded:
  assumes "well_formed db" and "findOne db pid uid = Some p"
    and "portfolio_id d = portfolio_id p" and "user d = user p" and "isDefault d = isDefault p"
  shows "well_formed (snd (save now d db))"
proof -
  from findOne_Some_D(1) [OF assms(2)] obtain q where q: "q \<in> set db" "p = hydrate q"
    by auto
  with assms(3,4,5) show ?thesis
    by (intro well_formed_save_same [OF assms(1) q(1)]) simp_all
qed

lemma well_formed_delete:
  "well_formed db \<Longrightarrow> well_formed (snd (delete_portfolio uid pid db))"
  by (simp add: delete_portfolio_def well_formed_filter split: option.splits)

lemma well_formed_refresh:
  assumes "well_formed db"
  shows "well_formed (fst (snd (refresh q now uid pid db)))"
proof (cases "findOne db pid uid")
  case None
  with assms show ?thesis by (simp add: refresh_def)
next
  case (Some p)
  with assms show ?thesis
    by (simp add: refresh_found well_formed_save_loaded)
qed

lemma well_formed_update_investment:
  assumes "well_formed db"
  shows "well_formed (snd (update_investment trim q now uid pid investmentId body db))"
proof (cases "findOne db pid uid")
  case None
  with assms show ?thesis by (simp add: update_investment_def)
next
  case (Some p)
  with assms show ?thesis
    by (simp add: update_investment_def Let_def well_formed_save_loaded split: option.splits)
qed

lemma well_formed_add_investment:
  assumes "well_formed db"
  shows "well_formed (snd (add_investment trim toUpperCase q now uid pid body db))"
proof (cases "findOne db pid uid")
  case None
  with assms show ?thesis by (simp add: add_investment_def)
next
  case (Some p)
  with assms show ?thesis
    by (simp add: add_investment_def Let_def well_formed_save_loaded split: option.splits)
qed

lemma well_formed_delete_investment:
  assumes "well_formed db"
  shows "well_formed (snd (delete_investment now uid pid investmentId db))"
proof (cases "findOne db pid uid")
  case None
  with assms show ?thesis by (simp add: delete_investment_def)
next
  case (Some p)
  with assms show ?thesis
    by (simp add: delete_investment_def Let_def well_formed_save_loaded split: option.splits)
qed

lemma findOne_save_other:
  assumes "portfolio_id d \<noteq> pid"
  shows "findOne (snd (save now d db)) pid uid = findOne db pid uid"
proof (cases "portfolio_id d \<in> set (map portfolio_id db)")
  case True
  have "find (\<lambda>p. portfolio_id p = pid \<and> user p = uid)
          (map (\<lambda>p. if portfolio_id p = portfolio_id d then pre_save now d else p) db)
        = find (\<lambda>p. portfolio_id p = pid \<and> user p = uid) db"
    using assms by (induction db) auto
  with True show ?thesis
    by (simp add: save_def Let_def findOne_def)
next
  case False
  have "find (\<lambda>p. portfolio_id p = pid \<and> user p = uid) (db @ [pre_save now d])
        = find (\<lambda>p. portfolio_id p = pid \<and> user p = uid) db"
    using assms by (induction db) auto
  with False show ?thesis
    by (simp add: save_def Let_def findOne_def)
qed

lemma findOne_save_new:
  assumes "portfolio_id d \<notin> set (map portfolio_id db)" and "user d = uid"
  shows "findOne (snd (save now d db)) (portfolio_id d) uid = Some (hydrate (pre_save now d))"
proof -
  have "find (\<lambda>p. portfolio_id p = portfolio_id d \<and> user p = uid) (db @ [pre_save now d])
        = Some (pre_save now d)"
    using assms by (induction db) auto
  with assms(1) show ?thesis
    by (simp add: save_def Let_def findOne_def)
qed

lemma findOne_updateMany_cleared:
  assumes "findOne db pid1 uid = Some p1" and "isDefault p1" and "pid1 \<noteq> pid2"
  shows "findOne (updateMany (\<lambda>q. user q = uid \<and> isDefault q \<and> portfolio_id q \<noteq> pid2)
           (\<lambda>q. q\<lparr>isDefault := False\<rparr>) db) pid1 uid = Some (p1\<lparr>isDefault := False\<rparr>)"
  using assms unfolding findOne_def updateMany_def
  by (induction db) (auto simp: hydrate_def split: if_splits)

lemma castBoolean_truthy: "castBoolean v = Some True \<Longrightarrow> truthy_value v"
  by (cases v) (auto split: if_splits)

lemma well_formed_create_clear:
  assumes "well_formed db"
  shows "well_formed (create_clear now e db)"
  using assms by (cases e) (simp_all add: create_clear_def well_formed_save)

lemma create_clear_no_default:
  assumes "well_formed db" and "truthy_value (body_isDefault body)"
    and "q \<in> set (create_clear now (create_find uid body db) db)" and "isDefault q"
  shows "user q \<noteq> uid"
proof (cases "find (\<lambda>p. user p = uid \<and> isDefault p) db")
  case None
  with assms(2,3) have "q \<in> set db"
    by (simp add: create_find_def create_clear_def)
  with None assms(4) show ?thesis by (auto simp: find_None_iff)
next
  case (Some e)
  then have e: "e \<in> set db" "user e = uid" "isDefault e"
    by (auto simp: find_Some_iff)
  then have "portfolio_id e \<in> set (map portfolio_id db)"
    by simp
  with Some assms(2) have "create_clear now (create_find uid body db) db =
        map (\<lambda>p. if portfolio_id p = portfolio_id e
                 then pre_save now ((hydrate e)\<lparr>isDefault := False\<rparr>) else p) db"
    by (simp add: create_find_def create_clear_def save_def Let_def)
  with assms(3) obtain q0 where q0: "q0 \<in> set db"
    "q = (if portfolio_id q0 = portfolio_id e
          then pre_save now ((hydrate e)\<lparr>isDefault := False\<rparr>) else q0)"
    by auto
  show ?thesis
  proof (cases "portfolio_id q0 = portfolio_id e")
    case True
    with q0(2) assms(4) show ?thesis by simp
  next
    case False
    with q0(2) have "q = q0" by simp
    with q0(1) assms(4) False well_formed_pair [OF assms(1) q0(1) e(1)] e(2,3)
    show ?thesis by auto
  qed
qed

lemma well_formed_create_insert:
  assumes "well_formed db1"
    and "\<And>q. truthy_value (body_isDefault body) \<Longrightarrow> q \<in> set db1 \<Longrightarrow> isDefault q \<Longrightarrow>
           user q \<noteq> uid"
  shows "well_formed (snd (create_insert trim now uid body db1))"
proof (cases "truthy_value (body_isDefault body)")
  case True
  have "well_formed (snd (save now d db1))" if "user d = uid" for d
  proof (rule well_formed_save [OF assms(1)], intro impI ballI)
    fix q
    assume "isDefault d" "q \<in> set db1" "isDefault q \<and> user q = user d"
    with assms(2) [OF True, of q] that show "portfolio_id q = portfolio_id d"
      by simp
  qed
  with assms(1) show ?thesis
    by (simp add: create_insert_def Let_def split: option.splits)
next
  case False
  have "well_formed (snd (save now d db1))" if "\<not> isDefault d" for d
    using that by (intro well_formed_save [OF assms(1)]) simp
  with assms(1) False show ?thesis
    by (simp add: create_insert_def Let_def)
qed

lemma well_formed_create:
  assumes "well_formed db"
  shows "well_formed (snd (create_portfolio trim now uid body db))"
proof (cases "body_name body = []")
  case True
  with assms show ?thesis by (simp add: create_portfolio_def)
next
  case False
  have "well_formed (snd (create_insert trim now uid body
          (create_clear now (create_find uid body db) db)))"
    using well_formed_create_clear [OF assms] create_clear_no_default [OF assms]
    by (intro well_formed_create_insert) blast+
  with False show ?thesis by (simp add: create_portfolio_def)
qed

lemma well_formed_update:
  assumes "well_formed db"
  shows "well_formed (snd (update_portfolio trim now uid pid body db))"
proof (cases "findOne db pid uid")
  case None
  with assms show ?thesis by (simp add: update_portfolio_def)
next
  case (Some p)
  from findOne_Some_D(1) [OF Some] obtain p0 where p0: "p0 \<in> set db" "p = hydrate p0"
    "portfolio_id p0 = pid" "user p0 = uid"
    by auto
  have p: "portfolio_id p = pid" "user p = uid"
    using Some by (simp_all add: findOne_Some_D)
  define db1 where "db1 =
    (if truthy_value (body_isDefault body) \<and> \<not> isDefault p then
       updateMany (\<lambda>q. user q = uid \<and> isDefault q \<and> portfolio_id q \<noteq> portfolio_id p)
         (\<lambda>q. q\<lparr>isDefault := False\<rparr>) db
     else db)"
  define cast where "cast =
    (if truthy_value (body_isDefault body) then castBoolean (body_isDefault body)
     else Some (isDefault p))"
  define changed where "changed = (\<lambda>flag.
    p\<lparr> portfolio_name := trim (body_name body),
       description := map_option trim (body_description body),
       isDefault := flag \<rparr>)"
  have route: "update_portfolio trim now uid pid body db =
     (if body_name body = [] then (Inl BadRequest, db)
      else case cast of
        None \<Rightarrow> (Inl ServerError, db1)
      | Some flag \<Rightarrow>
          if \<not> name_valid trim (body_name body) then (Inl ServerError, db1)
          else (Inr (pre_save now (changed flag)), snd (save now (changed flag) db1)))"
    using Some unfolding db1_def cast_def changed_def
    by (simp add: update_portfolio_def Let_def fst_save split: option.splits)
  have steps: "snd (update_portfolio trim now uid pid body db) = db
     \<or> snd (update_portfolio trim now uid pid body db) = db1
     \<or> (\<exists>flag. cast = Some flag
           \<and> snd (update_portfolio trim now uid pid body db) = snd (save now (changed flag) db1))"
    unfolding route by (auto split: option.splits)
  have flags: "flag \<longrightarrow> isDefault p"
    if "cast = Some flag" "\<not> (truthy_value (body_isDefault body) \<and> \<not> isDefault p)" for flag
    using that by (auto simp: cast_def split: if_splits)
  have wf1: "well_formed db1"
    unfolding db1_def using assms by (simp add: well_formed_updateMany)
  have saved: "well_formed (snd (save now (changed flag) db1))"
    if flag: "cast = Some flag" for flag
  proof (cases "truthy_value (body_isDefault body) \<and> \<not> isDefault p")
    case True
    show ?thesis
    proof (rule well_formed_save [OF wf1], intro impI ballI)
      fix q
      assume q: "q \<in> set db1" "isDefault q \<and> user q = user (changed flag)"
      from q(1) True obtain q0 where q0: "q0 \<in> set db"
        "q = (if user q0 = uid \<and> isDefault q0 \<and> portfolio_id q0 \<noteq> portfolio_id p
              then q0\<lparr>isDefault := False\<rparr> else q0)"
        by (auto simp: db1_def updateMany_def)
      show "portfolio_id q = portfolio_id (changed flag)"
      proof (cases "user q0 = uid \<and> isDefault q0 \<and> portfolio_id q0 \<noteq> portfolio_id p")
        case True
        with q0(2) q(2) show ?thesis by simp
      next
        case False
        with q0(2) have "q = q0" by simp
        with False q(2) p(2) show ?thesis by (auto simp: changed_def)
      qed
    qed
  next
    case False
    then have db1: "db1 = db"
      by (auto simp: db1_def)
    show ?thesis
      unfolding db1
    proof (rule well_formed_save [OF assms], intro impI ballI)
      fix q
      assume q: "isDefault (changed flag)" "q \<in> set db" "isDefault q \<and> user q = user (changed flag)"
      from q(1) flags [OF flag False] have "isDefault p0"
        by (simp add: changed_def p0(2))
      from well_formed_pair [OF assms q(2) p0(1) _ this] q(3) p0 p
      show "portfolio_id q = portfolio_id (changed flag)"
        by (simp add: changed_def)
    qed
  qed
  from steps show ?thesis
  proof (elim disjE exE conjE)
    assume eq: "snd (update_portfolio trim now uid pid body db) = db"
    show ?thesis unfolding eq by (rule assms)
  next
    assume eq: "snd (update_portfolio trim now uid pid body db) = db1"
    show ?thesis unfolding eq by (rule wf1)
  next
    fix flag
    assume flag: "cast = Some flag"
      and eq: "snd (update_portfolio trim now uid pid body db) = snd (save now (changed flag) db1)"
    show ?thesis unfolding eq by (rule saved [OF flag])
  qed
qed

lemma well_formed_perform: "well_formed db \<Longrightarrow> well_formed (perform trim toUpperCase op db)"
  by (cases op)
    (simp_all add: well_formed_create well_formed_update well_formed_delete
      well_formed_add_investment well_formed_update_investment well_formed_delete_investment
      well_formed_refresh)

lemma well_formed_fold:
  "well_formed db \<Longrightarrow> well_formed (fold (perform trim toUpperCase) ops db)"
  by (induction ops arbitrary: db) (simp_all add: well_formed_perform)

lemma well_formed_empty: "well_formed []"
  by (simp add: well_formed_def at_most_one_default_def)

lemma update_sets_default:
  assumes "well_formed db"
    and "findOne db pid2 uid = Some p2" and "findOne db pid1 uid = Some p1"
    and "isDefault p1" and "pid1 \<noteq> pid2"
    and "body_name body \<noteq> []" and "name_valid trim (body_name body)"
    and "castBoolean (body_isDefault body) = Some True"
  shows "\<exists>q1 q2 db'. update_portfolio trim now uid pid2 body db = (Inr q2, db')
    \<and> findOne db' pid1 uid = Some q1 \<and> \<not> isDefault q1
    \<and> findOne db' pid2 uid = Some q2 \<and> isDefault q2"
proof -
  from findOne_Some_D(1) [OF assms(2)] obtain s2 where s2: "s2 \<in> set db" "p2 = hydrate s2"
    "portfolio_id s2 = pid2" "user s2 = uid"
    by auto
  from findOne_Some_D(1) [OF assms(3)] obtain s1 where s1: "s1 \<in> set db" "p1 = hydrate s1"
    "portfolio_id s1 = pid1" "user s1 = uid"
    by auto
  have p2: "portfolio_id p2 = pid2" "user p2 = uid"
    using assms(2) by (simp_all add: findOne_Some_D)
  have "\<not> isDefault s2"
    using well_formed_pair [OF assms(1) s1(1) s2(1)] assms(4,5) s1 s2 by auto
  then have not_default: "\<not> isDefault p2"
    by (simp add: s2(2))
  let ?query = "\<lambda>q. user q = uid \<and> isDefault q \<and> portfolio_id q \<noteq> pid2"
  let ?db1 = "updateMany ?query (\<lambda>q. q\<lparr>isDefault := False\<rparr>) db"
  let ?changed = "p2\<lparr> portfolio_name := trim (body_name body),
                       description := map_option trim (body_description body),
                       isDefault := True \<rparr>"
  note truthy = castBoolean_truthy [OF assms(8)]
  have result: "update_portfolio trim now uid pid2 body db =
                  (Inr (pre_save now ?changed), snd (save now ?changed ?db1))"
    using assms(2,6,7,8) truthy not_default p2
    by (simp add: update_portfolio_def Let_def fst_save)
  have "findOne ?db1 pid1 uid = Some (p1\<lparr>isDefault := False\<rparr>)"
    by (rule findOne_updateMany_cleared [OF assms(3,4,5)])
  then have one: "findOne (snd (save now ?changed ?db1)) pid1 uid = Some (p1\<lparr>isDefault := False\<rparr>)"
    using p2(1) assms(5) by (simp add: findOne_save_other)
  have "\<forall>lot \<in> set (investments (pre_save now ?changed)). currentPrice lot \<noteq> None"
    using hydrate_loaded [OF assms(2)] by (simp add: pre_save_investments)
  then have fixed: "hydrate (pre_save now ?changed) = pre_save now ?changed"
    by (rule hydrate_fixed)
  have "findOne ?db1 pid2 uid = Some p2"
    by (rule findOne_updateMany_other [OF assms(2)])
  then have two: "findOne (snd (save now ?changed ?db1)) pid2 uid = Some (pre_save now ?changed)"
    using findOne_save [of ?db1 pid2 uid p2 ?changed now] p2 fixed by simp
  from result one two show ?thesis by simp
qed

lemma create_sets_default:
  assumes "well_formed db"
    and "findOne db pid1 uid = Some p1" and "isDefault p1"
    and "body_name body \<noteq> []" and "name_valid trim (body_name body)"
    and "castBoolean (body_isDefault body) = Some True"
  shows "\<exists>q1 new db'. create_portfolio trim now uid body db = (Inr new, db')
    \<and> findOne db' pid1 uid = Some q1 \<and> \<not> isDefault q1
    \<and> findOne db' (portfolio_id new) uid = Some new \<and> isDefault new"
proof -
  from findOne_Some_D(1) [OF assms(2)] obtain s1 where s1: "s1 \<in> set db" "p1 = hydrate s1"
    "portfolio_id s1 = pid1" "user s1 = uid"
    by auto
  note truthy = castBoolean_truthy [OF assms(6)]
  from s1 assms(3) obtain e where e: "find (\<lambda>q. user q = uid \<and> isDefault q) db = Some e"
    by (cases "find (\<lambda>q. user q = uid \<and> isDefault q) db") (auto simp: find_None_iff)
  then have e_in: "e \<in> set db" "user e = uid" "isDefault e"
    by (auto simp: find_Some_iff)
  have ide: "portfolio_id e = pid1"
    using well_formed_pair [OF assms(1) e_in(1) s1(1)] e_in s1 assms(3) by simp
  let ?cleared = "(hydrate e)\<lparr>isDefault := False\<rparr>"
  let ?db1 = "snd (save now ?cleared db)"
  let ?new = "\<lparr> portfolio_id = new_ObjectId ?db1, user = uid,
                portfolio_name = trim (body_name body),
                description = map_option trim (body_description body),
                investments = [], totalValue = 0, totalCost = 0,
                createdAt = now, updatedAt = now, isDefault = True \<rparr>"
  have clear: "create_clear now (create_find uid body db) db = ?db1"
    using truthy e by (simp add: create_find_def create_clear_def)
  have result: "create_portfolio trim now uid body db =
                  (Inr (pre_save now ?new), snd (save now ?new ?db1))"
    using assms(4,5,6) truthy
    by (simp add: create_portfolio_def clear create_insert_def Let_def fst_save)
  have old: "findOne ?db1 pid1 uid = Some (hydrate (pre_save now ?cleared))"
    using ide e_in(2) by (intro findOne_save [OF assms(2)]) simp_all
  from findOne_Some_D(1) [OF old] obtain stored where stored: "stored \<in> set ?db1"
    "portfolio_id stored = pid1"
    by auto
  from new_ObjectId_fresh [OF stored(1)] stored(2)
  have differ: "portfolio_id ?new \<noteq> pid1"
    by simp
  have fresh: "portfolio_id ?new \<notin> set (map portfolio_id ?db1)"
    using new_ObjectId_fresh [of _ ?db1] by fastforce
  from old differ have one: "findOne (snd (save now ?new ?db1)) pid1 uid
                               = Some (hydrate (pre_save now ?cleared))"
    by (simp add: findOne_save_other)
  have fixed: "hydrate (pre_save now ?new) = pre_save now ?new"
    by (rule hydrate_fixed) (simp add: pre_save_investments)
  have two: "findOne (snd (save now ?new ?db1)) (portfolio_id ?new) uid = Some (pre_save now ?new)"
    using findOne_save_new [of ?new ?db1 uid now] fresh fixed by simp
  from result one two show ?thesis by simp
qed

lemma run_two_creates:
  "fold (perform trim_ascii toUpperCase_ascii) two_creates [] = [core_portfolio, growth_portfolio]"
  by (simp add: two_creates_def create_portfolio_def create_find_def create_clear_def
      create_insert_def core_body_def rename_body_def names_valid names_trimmed trim_Growth
      save_def pre_save_def new_ObjectId_def Let_def core_portfolio_def growth_portfolio_def)

lemma found_core_growth:
  "findOne [core_portfolio, growth_portfolio] 2 3 = Some growth_portfolio"
  "findOne [core_portfolio, growth_portfolio] (Suc 0) 3 = Some core_portfolio"
  by (simp_all add: findOne_def hydrate_def core_portfolio_def growth_portfolio_def)

lemma update_growth_default:
  "update_portfolio trim_ascii 30 3 2 default_body [core_portfolio, growth_portfolio] =
     (Inr (growth_portfolio\<lparr>updatedAt := 30, isDefault := True\<rparr>),
      [core_portfolio\<lparr>isDefault := False\<rparr>,
       growth_portfolio\<lparr>updatedAt := 30, isDefault := True\<rparr>])"
  by (simp add: update_portfolio_def default_body_def found_core_growth updateMany_def
      names_valid trim_Growth save_def pre_save_def Let_def)
    (simp add: core_portfolio_def growth_portfolio_def)

lemma create_income_default:
  "create_portfolio trim_ascii 40 3 income_body [core_portfolio, growth_portfolio] =
     (Inr income_portfolio,
      [core_portfolio\<lparr>updatedAt := 40, isDefault := False\<rparr>, growth_portfolio,
       income_portfolio])"
  by (simp add: create_portfolio_def create_find_def create_clear_def create_insert_def
      income_body_def names_valid names_trimmed save_def pre_save_def new_ObjectId_def Let_def
      hydrate_def core_portfolio_def growth_portfolio_def income_portfolio_def)

lemma run_interleaved_creates:
  "interleaved_creates =
     (Inr core_portfolio, Inr (growth_portfolio\<lparr>isDefault := True\<rparr>),
      [core_portfolio, growth_portfolio\<lparr>isDefault := True\<rparr>])"
  by (simp add: interleaved_creates_def create_find_def create_clear_def create_insert_def
      core_body_def default_body_def names_valid names_trimmed trim_Growth
      save_def pre_save_def new_ObjectId_def Let_def core_portfolio_def growth_portfolio_def)

text \<open>
  C7 (as amended). When the requests are run one after another, each to its end before
  the next starts: after any sequence of requests, starting from the empty collection,
  no two stored portfolios share an id and every user has at most one default portfolio;
  and in such a state, a successful update or creation whose \<open>isDefault\<close> is true (a
  value the Boolean path casts to \<open>true\<close>) leaves the owner's previously default
  portfolio with \<open>isDefault = false\<close> and the newly set one with \<open>isDefault = true\<close>.
\<close>

theorem C7_one_default_sequential:
  "well_formed (fold (perform trim toUpperCase) ops [])
   \<and> (\<forall>u. length (filter (\<lambda>p. user p = u \<and> isDefault p)
                    (fold (perform trim toUpperCase) ops [])) \<le> 1)
   \<and> (\<forall>p1 p2. findOne (fold (perform trim toUpperCase) ops []) pid2 uid = Some p2
          \<and> findOne (fold (perform trim toUpperCase) ops []) pid1 uid = Some p1
          \<and> isDefault p1 \<and> pid1 \<noteq> pid2
          \<and> body_name body \<noteq> [] \<and> name_valid trim (body_name body)
          \<and> castBoolean (body_isDefault body) = Some True \<longrightarrow>
        (\<exists>q1 q2 db'.
           update_portfolio trim now uid pid2 body (fold (perform trim toUpperCase) ops [])
             = (Inr q2, db')
           \<and> findOne db' pid1 uid = Some q1 \<and> \<not> isDefault q1
           \<and> findOne db' pid2 uid = Some q2 \<and> isDefault q2))
   \<and> (\<forall>p1. findOne (fold (perform trim toUpperCase) ops []) pid1 uid = Some p1
          \<and> isDefault p1
          \<and> body_name body \<noteq> [] \<and> name_valid trim (body_name body)
          \<and> castBoolean (body_isDefault body) = Some True \<longrightarrow>
        (\<exists>q1 new db'.
           create_portfolio trim now uid body (fold (perform trim toUpperCase) ops [])
             = (Inr new, db')
           \<and> findOne db' pid1 uid = Some q1 \<and> \<not> isDefault q1
           \<and> findOne db' (portfolio_id new) uid = Some new \<and> isDefault new))"
proof -
  have wf: "well_formed (fold (perform trim toUpperCase) ops [])"
    by (rule well_formed_fold [OF well_formed_empty])
  then have count: "length (filter (\<lambda>p. user p = u \<and> isDefault p)
                      (fold (perform trim toUpperCase) ops [])) \<le> 1" for u
    using at_most_one_default_count [of "fold (perform trim toUpperCase) ops []" u]
    by (simp add: well_formed_def)
  from wf count update_sets_default [OF wf] create_sets_default [OF wf]
  show ?thesis by blast
qed

text \<open>
  C7 as stated fails when two requests are in flight together. Two creations of a default
  portfolio by one user, each searching for the current default before the other saves,
  both find none and both succeed: the user has two default portfolios.
\<close>

theorem C7_concurrent_creates_counterexample:
  "interleaved_creates =
     (Inr core_portfolio, Inr (growth_portfolio\<lparr>isDefault := True\<rparr>),
      [core_portfolio, growth_portfolio\<lparr>isDefault := True\<rparr>])
   \<and> user core_portfolio = 3 \<and> isDefault core_portfolio
   \<and> user (growth_portfolio\<lparr>isDefault := True\<rparr>) = 3
   \<and> isDefault (growth_portfolio\<lparr>isDefault := True\<rparr>)
   \<and> portfolio_id core_portfolio \<noteq> portfolio_id (growth_portfolio\<lparr>isDefault := True\<rparr>)
   \<and> \<not> at_most_one_default [core_portfolio, growth_portfolio\<lparr>isDefault := True\<rparr>]
   \<and> length (filter (\<lambda>p. user p = 3 \<and> isDefault p)
               [core_portfolio, growth_portfolio\<lparr>isDefault := True\<rparr>]) = 2"
  by (simp add: run_interleaved_creates)
    (simp add: at_most_one_default_def core_portfolio_def growth_portfolio_def)

theorem C7_one_default_sequential_witness:
  "fold (perform trim_ascii toUpperCase_ascii) two_creates [] = [core_portfolio, growth_portfolio]
   \<and> findOne [core_portfolio, growth_portfolio] 2 3 = Some growth_portfolio
   \<and> findOne [core_portfolio, growth_portfolio] (Suc 0) 3 = Some core_portfolio
   \<and> isDefault core_portfolio \<and> Suc 0 \<noteq> 2
   \<and> body_name default_body \<noteq> [] \<and> name_valid trim_ascii (body_name default_body)
   \<and> castBoolean (body_isDefault default_body) = Some True
   \<and> update_portfolio trim_ascii 30 3 2 default_body [core_portfolio, growth_portfolio] =
       (Inr (growth_portfolio\<lparr>updatedAt := 30, isDefault := True\<rparr>),
        [core_portfolio\<lparr>isDefault := False\<rparr>,
         growth_portfolio\<lparr>updatedAt := 30, isDefault := True\<rparr>])
   \<and> body_name income_body \<noteq> [] \<and> name_valid trim_ascii (body_name income_body)
   \<and> castBoolean (body_isDefault income_body) = Some True
   \<and> create_portfolio trim_ascii 40 3 income_body [core_portfolio, growth_portfolio] =
       (Inr income_portfolio,
        [core_portfolio\<lparr>updatedAt := 40, isDefault := False\<rparr>, growth_portfolio,
         income_portfolio])
   \<and> isDefault income_portfolio
   \<and> length (filter (\<lambda>p. user p = 3 \<and> isDefault p) [core_portfolio, growth_portfolio]) = 1"
proof -
  have flags: "isDefault core_portfolio" "\<not> isDefault growth_portfolio"
    "isDefault income_portfolio" "user core_portfolio = 3"
    by (simp_all add: core_portfolio_def growth_portfolio_def income_portfolio_def)
  have bodies: "body_name default_body \<noteq> []" "name_valid trim_ascii (body_name default_body)"
    "castBoolean (body_isDefault default_body) = Some True"
    "body_name income_body \<noteq> []" "name_valid trim_ascii (body_name income_body)"
    "castBoolean (body_isDefault income_body) = Some True"
    by (simp_all add: default_body_def income_body_def names_valid)
  show ?thesis
    using C7_one_default_sequential [of trim_ascii toUpperCase_ascii two_creates 2 3 "Suc 0"
        default_body 30]
      C7_one_default_sequential [of trim_ascii toUpperCase_ascii two_creates 2 3 "Suc 0"
        income_body 40]
    by (simp add: run_two_creates found_core_growth flags bodies update_growth_default
        create_income_default)
qed

end
